theory Spec2Isabelle
  imports Main "HOL-Library.Word"
begin

section \<open>The wallet service of sidalsoft/wallet\<close>

text \<open>
  A shallow embedding of the Go package \<open>wallet\<close> (the service with \<open>Import\<close> and
  \<open>Export\<close>, and the two functions of \<open>pkg/wallet/service.go\<close> that differ from it) and of
  the package \<open>types\<close>.

  \<^item> \<open>int64\<close> (\<open>Money\<close>, account identifiers, the counter) is \<open>64 word\<close>: \<open>+\<close> and \<open>-\<close>
    wrap around as in Go, and the comparisons of the source are comparisons of \<open>sint\<close>.
  \<^item> Go strings are byte strings: \<open>string\<close>. \<open>PaymentStatus\<close>, \<open>PaymentCategory\<close> and
    \<open>Phone\<close> are string types in the source and stay strings here.
  \<^item> A slice of pointers \<open>[]*T\<close> is an \<open>'a list option\<close>: \<open>None\<close> is the nil slice, which
    \<open>Import\<close> tests for. The objects behind the pointers are allocated once each and
    appended once, so an object is identified by its position: writing through a
    pointer found by a loop is a list update at the index the loop found.
  \<^item> Every method takes the service and returns the service after the call together
    with its result, so that what a failing call leaves behind is part of the model.
    A run-time panic (an index out of range) is the result \<open>Panic\<close>.
  \<^item> \<open>uuid.New().String()\<close> reads the random source: the generated identifier is an
    argument of the model (for \<open>Import\<close>, which generates one per appended favorite, a
    sequence of them).
  \<^item> The file system is a map from path names to file contents; creating and writing a
    file always succeeds in the model.
\<close>

subsection \<open>package types\<close>

type_synonym Money = "64 word"
type_synonym PaymentCategory = string
type_synonym PaymentStatus = string
type_synonym Phone = string

definition PaymentStatusOk :: PaymentStatus where
  "PaymentStatusOk = ''OK''"

definition PaymentStatusFail :: PaymentStatus where
  "PaymentStatusFail = ''FAIL''"

definition PaymentStatusInProgress :: PaymentStatus where
  "PaymentStatusInProgress = ''INPROGRESS''"

record Payment =
  pID :: string
  pAccountID :: "64 word"
  pAmount :: Money
  pCategory :: PaymentCategory
  pStatus :: PaymentStatus

record Account =
  aID :: "64 word"
  aPhone :: Phone
  aBalance :: Money

record Favorite =
  fID :: string
  fAccountID :: "64 word"
  fName :: string
  fAmount :: Money
  fCategory :: PaymentCategory

subsection \<open>package wallet: the service\<close>

datatype error =
    ErrPhoneRegistered
  | ErrFavoriteRegistered
  | ErrAmountMustBePositive
  | ErrAccountNotFound
  | ErrNotEnoughBalance
  | ErrPaymentNotFound
  | ErrFavoriteNotFound
  | ErrMinRecords
  | ErrOpen \<comment> \<open>the error of \<open>os.Open\<close>\<close>

datatype 'a result = Ok 'a | Err error | Panic

record Service =
  nextAccountID :: "64 word"
  accounts :: "Account list option"
  payments :: "Payment list option"
  favorites :: "Favorite list option"

text \<open>The zero value \<open>Service{}\<close>: every slice nil.\<close>

definition zeroService :: Service where
  "zeroService = \<lparr>nextAccountID = 0, accounts = None, payments = None, favorites = None\<rparr>"

text \<open>\<open>range\<close> over a slice; over the nil slice it runs no iteration.\<close>

fun elems :: "'a list option \<Rightarrow> 'a list" where
  "elems None = []"
| "elems (Some xs) = xs"

text \<open>\<open>append(sl, x)\<close>: the result is never nil.\<close>

definition append_slice :: "'a list option \<Rightarrow> 'a \<Rightarrow> 'a list option" where
  "append_slice sl x = Some (elems sl @ [x])"

text \<open>Writing through the pointer at position \<open>i\<close> of a slice.\<close>

definition update_at :: "'a list option \<Rightarrow> nat \<Rightarrow> ('a \<Rightarrow> 'a) \<Rightarrow> 'a list option" where
  "update_at sl i f = map_option (\<lambda>xs. xs[i := f (xs ! i)]) sl"

text \<open>
  The loop \<open>for _, x := range xs { if P x { return x } }\<close>: the position of the first
  element that satisfies \<open>P\<close>.
\<close>

fun first_from :: "('a \<Rightarrow> bool) \<Rightarrow> nat \<Rightarrow> 'a list \<Rightarrow> nat option" where
  "first_from P i [] = None"
| "first_from P i (x # xs) = (if P x then Some i else first_from P (Suc i) xs)"

text \<open>
  The loop \<open>var r *T; for _, x := range xs { if P x { r = x } }\<close> of \<open>Deposit\<close> and \<open>Pay\<close>:
  it does not stop at a match, so \<open>r\<close> ends as the last element that satisfies \<open>P\<close>.
\<close>

fun last_from :: "('a \<Rightarrow> bool) \<Rightarrow> nat \<Rightarrow> nat option \<Rightarrow> 'a list \<Rightarrow> nat option" where
  "last_from P i r [] = r"
| "last_from P i r (x # xs) = last_from P (Suc i) (if P x then Some i else r) xs"

definition indexAccountByID :: "Service \<Rightarrow> 64 word \<Rightarrow> nat option" where
  "indexAccountByID s accountID = first_from (\<lambda>acc. aID acc = accountID) 0 (elems (accounts s))"

definition indexPaymentByID :: "Service \<Rightarrow> string \<Rightarrow> nat option" where
  "indexPaymentByID s paymentID = first_from (\<lambda>py. pID py = paymentID) 0 (elems (payments s))"

definition indexFavoriteByID :: "Service \<Rightarrow> string \<Rightarrow> nat option" where
  "indexFavoriteByID s favoriteID = first_from (\<lambda>py. fID py = favoriteID) 0 (elems (favorites s))"

definition FindAccountByID :: "Service \<Rightarrow> 64 word \<Rightarrow> Service \<times> Account result" where
  "FindAccountByID s accountID =
     (case indexAccountByID s accountID of
        Some i \<Rightarrow> (s, Ok (elems (accounts s) ! i))
      | None \<Rightarrow> (s, Err ErrAccountNotFound))"

definition FindPaymentByID :: "Service \<Rightarrow> string \<Rightarrow> Service \<times> Payment result" where
  "FindPaymentByID s paymentID =
     (case indexPaymentByID s paymentID of
        Some i \<Rightarrow> (s, Ok (elems (payments s) ! i))
      | None \<Rightarrow> (s, Err ErrPaymentNotFound))"

definition FindFavoriteByID :: "Service \<Rightarrow> string \<Rightarrow> Service \<times> Favorite result" where
  "FindFavoriteByID s favoriteID =
     (case indexFavoriteByID s favoriteID of
        Some i \<Rightarrow> (s, Ok (elems (favorites s) ! i))
      | None \<Rightarrow> (s, Err ErrFavoriteNotFound))"

definition RegisterAccount :: "Service \<Rightarrow> Phone \<Rightarrow> Service \<times> Account result" where
  "RegisterAccount s phone =
     (if \<exists>account \<in> set (elems (accounts s)). aPhone account = phone
      then (s, Err ErrPhoneRegistered)
      else
        let s1 = s\<lparr>nextAccountID := nextAccountID s + 1\<rparr>;
            account = \<lparr>aID = nextAccountID s1, aPhone = phone, aBalance = 0\<rparr>
        in (s1\<lparr>accounts := append_slice (accounts s1) account\<rparr>, Ok account))"

definition Deposit :: "Service \<Rightarrow> 64 word \<Rightarrow> Money \<Rightarrow> Service \<times> unit result" where
  "Deposit s accountID amount =
     (if sint amount \<le> 0 then (s, Err ErrAmountMustBePositive)
      else
        case last_from (\<lambda>acc. aID acc = accountID) 0 None (elems (accounts s)) of
          None \<Rightarrow> (s, Err ErrAccountNotFound)
        | Some i \<Rightarrow>
            (s\<lparr>accounts := update_at (accounts s) i (\<lambda>a. a\<lparr>aBalance := aBalance a + amount\<rparr>)\<rparr>,
             Ok ()))"

definition Pay ::
  "Service \<Rightarrow> 64 word \<Rightarrow> Money \<Rightarrow> PaymentCategory \<Rightarrow> string \<Rightarrow> Service \<times> Payment result" where
  "Pay s accountID amount category uuid =
     (if sint amount \<le> 0 then (s, Err ErrAmountMustBePositive)
      else
        case last_from (\<lambda>acc. aID acc = accountID) 0 None (elems (accounts s)) of
          None \<Rightarrow> (s, Err ErrAccountNotFound)
        | Some i \<Rightarrow>
            if sint (aBalance (elems (accounts s) ! i)) < sint amount
            then (s, Err ErrNotEnoughBalance)
            else
              let s1 = s\<lparr>accounts :=
                          update_at (accounts s) i (\<lambda>a. a\<lparr>aBalance := aBalance a - amount\<rparr>)\<rparr>;
                  payment = \<lparr>pID = uuid, pAccountID = accountID, pAmount = amount,
                             pCategory = category, pStatus = PaymentStatusInProgress\<rparr>
              in (s1\<lparr>payments := append_slice (payments s1) payment\<rparr>, Ok payment))"

definition Reject :: "Service \<Rightarrow> string \<Rightarrow> Service \<times> unit result" where
  "Reject s paymentID =
     (case indexPaymentByID s paymentID of
        None \<Rightarrow> (s, Err ErrPaymentNotFound)
      | Some k \<Rightarrow>
          let payment = elems (payments s) ! k in
          (case indexAccountByID s (pAccountID payment) of
             None \<Rightarrow> (s, Err ErrAccountNotFound)
           | Some i \<Rightarrow>
               let s1 = s\<lparr>payments :=
                           update_at (payments s) k (\<lambda>p. p\<lparr>pStatus := PaymentStatusFail\<rparr>)\<rparr>
               in (s1\<lparr>accounts :=
                        update_at (accounts s1) i
                          (\<lambda>a. a\<lparr>aBalance := aBalance a + pAmount payment\<rparr>)\<rparr>,
                   Ok ())))"

definition Repeat :: "Service \<Rightarrow> string \<Rightarrow> string \<Rightarrow> Service \<times> Payment result" where
  "Repeat s paymentID uuid =
     (case FindPaymentByID s paymentID of
        (s1, Ok p) \<Rightarrow> Pay s1 (pAccountID p) (pAmount p) (pCategory p) uuid
      | (s1, Err e) \<Rightarrow> (s1, Err e)
      | (s1, Panic) \<Rightarrow> (s1, Panic))"

definition FavoritePayment :: "Service \<Rightarrow> string \<Rightarrow> string \<Rightarrow> string \<Rightarrow> Service \<times> Favorite result" where
  "FavoritePayment s paymentID name uuid =
     (if \<exists>favorite \<in> set (elems (favorites s)). fName favorite = name
      then (s, Err ErrFavoriteRegistered)
      else
        case FindPaymentByID s paymentID of
          (s1, Ok payment) \<Rightarrow>
            let favorite = \<lparr>fID = uuid, fAccountID = pAccountID payment, fName = name,
                            fAmount = pAmount payment, fCategory = pCategory payment\<rparr>
            in (s1\<lparr>favorites := append_slice (favorites s1) favorite\<rparr>, Ok favorite)
        | (s1, Err e) \<Rightarrow> (s1, Err e)
        | (s1, Panic) \<Rightarrow> (s1, Panic))"

definition PayFromFavorite :: "Service \<Rightarrow> string \<Rightarrow> string \<Rightarrow> Service \<times> Payment result" where
  "PayFromFavorite s favoriteID uuid =
     (case FindFavoriteByID s favoriteID of
        (s1, Ok fw) \<Rightarrow> Pay s1 (fAccountID fw) (fAmount fw) (fCategory fw) uuid
      | (s1, Err e) \<Rightarrow> (s1, Err e)
      | (s1, Panic) \<Rightarrow> (s1, Panic))"

text \<open>
  The two functions of \<open>pkg/wallet/service.go\<close> that differ: there \<open>FavoritePayment\<close> also
  increments the account counter, and \<open>PayFromFavorite\<close> calls \<open>Repeat\<close> with the
  identifier of the favorite.
\<close>

definition service_go_FavoritePayment ::
  "Service \<Rightarrow> string \<Rightarrow> string \<Rightarrow> string \<Rightarrow> Service \<times> Favorite result" where
  "service_go_FavoritePayment s paymentID name uuid =
     (if \<exists>favorite \<in> set (elems (favorites s)). fName favorite = name
      then (s, Err ErrFavoriteRegistered)
      else
        case FindPaymentByID s paymentID of
          (s1, Ok payment) \<Rightarrow>
            let s2 = s1\<lparr>nextAccountID := nextAccountID s1 + 1\<rparr>;
                favorite = \<lparr>fID = uuid, fAccountID = pAccountID payment, fName = name,
                            fAmount = pAmount payment, fCategory = pCategory payment\<rparr>
            in (s2\<lparr>favorites := append_slice (favorites s2) favorite\<rparr>, Ok favorite)
        | (s1, Err e) \<Rightarrow> (s1, Err e)
        | (s1, Panic) \<Rightarrow> (s1, Panic))"

definition service_go_PayFromFavorite :: "Service \<Rightarrow> string \<Rightarrow> string \<Rightarrow> Service \<times> Payment result" where
  "service_go_PayFromFavorite s favoriteID uuid =
     (case FindFavoriteByID s favoriteID of
        (s1, Ok fw) \<Rightarrow> Repeat s1 (fID fw) uuid
      | (s1, Err e) \<Rightarrow> (s1, Err e)
      | (s1, Panic) \<Rightarrow> (s1, Panic))"

subsection \<open>The text codec\<close>

text \<open>
  \<open>fmt.Sprint\<close> renders an \<open>int64\<close> in decimal, with a leading \<open>-\<close> when it is negative.
  The digits are read from the table \<open>"0123456789"\<close>, as in \<open>strconv\<close>.
\<close>

definition digit_char :: "nat \<Rightarrow> char" where
  "digit_char d = ''0123456789'' ! d"

fun dec_digits :: "nat \<Rightarrow> string" where
  "dec_digits n =
     (if n < 10 then [digit_char n] else dec_digits (n div 10) @ [digit_char (n mod 10)])"

declare dec_digits.simps [simp del]

definition FormatInt :: "64 word \<Rightarrow> string" where
  "FormatInt w =
     (if sint w < 0 then CHR ''-'' # dec_digits (nat (- sint w)) else dec_digits (nat (sint w)))"

text \<open>
  The \<open>ToString\<close> methods call \<open>fmt.Sprint\<close> on the fields with \<open>";"\<close> between them.
  \<open>Sprint\<close> adds a space only between two operands that are both not strings, which
  never happens here: every second operand is \<open>";"\<close>.
\<close>

definition Payment_ToString :: "Payment \<Rightarrow> string" where
  "Payment_ToString ac =
     pID ac @ '';'' @ FormatInt (pAccountID ac) @ '';'' @ FormatInt (pAmount ac) @ '';'' @
     pCategory ac @ '';'' @ pStatus ac"

definition Account_ToString :: "Account \<Rightarrow> string" where
  "Account_ToString ac = FormatInt (aID ac) @ '';'' @ aPhone ac @ '';'' @ FormatInt (aBalance ac)"

definition Favorite_ToString :: "Favorite \<Rightarrow> string" where
  "Favorite_ToString ac =
     fID ac @ '';'' @ FormatInt (fAccountID ac) @ '';'' @ fName ac @ '';'' @
     FormatInt (fAmount ac) @ '';'' @ fCategory ac"

text \<open>
  \<open>strings.Split(s, sep)\<close> for a separator of one byte: the fields between the
  separators, a single empty field for the empty string.
\<close>

fun Split :: "string \<Rightarrow> char \<Rightarrow> string list" where
  "Split [] sep = [[]]"
| "Split (c # cs) sep =
     (if c = sep then [] # Split cs sep
      else (case Split cs sep of [] \<Rightarrow> [[c]] | f # fs \<Rightarrow> (c # f) # fs))"

text \<open>
  The value \<open>strconv.Atoi\<close> returns (on a platform whose \<open>int\<close> has 64 bits); every caller
  discards its error. The string is an optional sign and at least one decimal digit;
  on any other string the value is 0, and a number outside \<open>int64\<close> gives the nearest
  \<open>int64\<close>.
\<close>

definition is_digit :: "char \<Rightarrow> bool" where
  "is_digit c \<longleftrightarrow> 48 \<le> (of_char c :: nat) \<and> (of_char c :: nat) \<le> 57"

fun parse_digits :: "nat \<Rightarrow> string \<Rightarrow> nat option" where
  "parse_digits n [] = Some n"
| "parse_digits n (ch # cs) =
     (if is_digit ch then parse_digits (n * 10 + (of_char ch - 48)) cs else None)"

definition Atoi :: "string \<Rightarrow> 64 word" where
  "Atoi s =
     (case s of
        [] \<Rightarrow> 0
      | c # cs \<Rightarrow>
          let neg = (c = CHR ''-'');
              ds = (if c = CHR ''-'' \<or> c = CHR ''+'' then cs else s)
          in if ds = [] then 0
             else (case parse_digits 0 ds of
                     None \<Rightarrow> 0
                   | Some un \<Rightarrow>
                       if \<not> neg \<and> un \<ge> 2 ^ 63 then 2 ^ 63 - 1
                       else if neg \<and> un > 2 ^ 63 then - (2 ^ 63)
                       else if neg then - word_of_nat un
                       else word_of_nat un))"

subsection \<open>Export and Import\<close>

type_synonym filesystem = "string \<rightharpoonup> string"

definition dumpPath :: "string \<Rightarrow> string \<Rightarrow> string" where
  "dumpPath dir name = dir @ ''/'' @ name @ ''.dump''"

text \<open>\<open>ExportToFile\<close>: the accounts, each followed by \<open>|\<close>, in one file.\<close>

definition ExportToFile :: "Service \<Rightarrow> string \<Rightarrow> filesystem \<Rightarrow> filesystem \<times> unit result" where
  "ExportToFile s path fs =
     (fs(path \<mapsto> concat (map (\<lambda>account. Account_ToString account @ ''|'') (elems (accounts s)))),
      Ok ())"

text \<open>
  The loop of \<open>ImportFromFile\<close> over the records. A record of fewer than two fields is
  skipped. \<open>RegisterAccount\<close> is called with the second field; the third field is read
  after that call, so a record of exactly two fields panics after the account was
  registered.
\<close>

fun importFromFileRecords :: "string list \<Rightarrow> Service \<Rightarrow> Service \<times> unit result" where
  "importFromFileRecords [] s = (s, Ok ())"
| "importFromFileRecords (ac # arr) s =
     (let accountStr = Split ac CHR '';'' in
      if length accountStr < 2 then importFromFileRecords arr s
      else
        (case RegisterAccount s (accountStr ! 1) of
           (s1, Err e) \<Rightarrow> (s1, Err e)
         | (s1, Panic) \<Rightarrow> (s1, Panic)
         | (s1, Ok account) \<Rightarrow>
             if length accountStr < 3 then (s1, Panic)
             else
               (case Deposit s1 (aID account) (Atoi (accountStr ! 2)) of
                  (s2, Err e) \<Rightarrow> (s2, Err e)
                | (s2, Panic) \<Rightarrow> (s2, Panic)
                | (s2, Ok u) \<Rightarrow> importFromFileRecords arr s2)))"

definition ImportFromFile :: "Service \<Rightarrow> string \<Rightarrow> filesystem \<Rightarrow> Service \<times> unit result" where
  "ImportFromFile s path fs =
     (case fs path of
        None \<Rightarrow> (s, Err ErrOpen)
      | Some str \<Rightarrow> importFromFileRecords (Split str CHR ''|'') s)"

text \<open>
  \<open>Export\<close>: one file per non-empty collection, every record followed by a newline;
  accounts, then favorites, then payments.
\<close>

definition Export :: "Service \<Rightarrow> string \<Rightarrow> filesystem \<Rightarrow> filesystem \<times> unit result" where
  "Export s dir fs =
     (let fs1 = (if length (elems (accounts s)) > 0
                 then fs(dumpPath dir ''accounts'' \<mapsto>
                        concat (map (\<lambda>account. Account_ToString account @ [CHR 0x0A])
                                  (elems (accounts s))))
                 else fs);
          fs2 = (if length (elems (favorites s)) > 0
                 then fs1(dumpPath dir ''favorites'' \<mapsto>
                        concat (map (\<lambda>favorite. Favorite_ToString favorite @ [CHR 0x0A])
                                  (elems (favorites s))))
                 else fs1);
          fs3 = (if length (elems (payments s)) > 0
                 then fs2(dumpPath dir ''payments'' \<mapsto>
                        concat (map (\<lambda>payment. Payment_ToString payment @ [CHR 0x0A])
                                  (elems (payments s))))
                 else fs2)
      in (fs3, Ok ()))"

text \<open>The closure \<open>read\<close> of \<open>Import\<close>: a file that cannot be read is the empty string.\<close>

definition readDump :: "filesystem \<Rightarrow> string \<Rightarrow> string \<Rightarrow> string" where
  "readDump fs dir name = (case fs (dumpPath dir name) of None \<Rightarrow> [] | Some data \<Rightarrow> data)"

text \<open>
  The three loops of \<open>Import\<close>. Each skips a line of fewer than two fields and then
  indexes the fields up to the last one of the record (index 2 for an account, 4 for a
  payment or a favorite) before it touches the store: a line with two fields or
  more but fewer than the record has makes the index expression panic.
\<close>

fun importAccounts :: "string list \<Rightarrow> Service \<Rightarrow> Service \<times> unit result" where
  "importAccounts [] s = (s, Ok ())"
| "importAccounts (ac # arr) s =
     (let accountStr = Split ac CHR '';'' in
      if length accountStr < 2 then importAccounts arr s
      else if length accountStr < 3 then (s, Panic)
      else
        let ID = Atoi (accountStr ! 0);
            Phone = accountStr ! 1;
            Balance = Atoi (accountStr ! 2)
        in (case indexAccountByID s ID of
              Some i \<Rightarrow>
                importAccounts arr
                  (s\<lparr>accounts :=
                       update_at (accounts s) i (\<lambda>fw. fw\<lparr>aPhone := Phone, aBalance := Balance\<rparr>)\<rparr>)
            | None \<Rightarrow>
                importAccounts arr
                  (s\<lparr>accounts :=
                       append_slice (accounts s) \<lparr>aID = ID, aPhone = Phone, aBalance = Balance\<rparr>,
                     nextAccountID := ID\<rparr>)))"

fun importPayments :: "string list \<Rightarrow> Service \<Rightarrow> Service \<times> unit result" where
  "importPayments [] s = (s, Ok ())"
| "importPayments (ac # arr) s =
     (let paymentStr = Split ac CHR '';'' in
      if length paymentStr < 2 then importPayments arr s
      else if length paymentStr < 5 then (s, Panic)
      else
        let ID = paymentStr ! 0;
            AccountID = Atoi (paymentStr ! 1);
            Amount = Atoi (paymentStr ! 2);
            Category = paymentStr ! 3;
            Status = paymentStr ! 4
        in (case indexPaymentByID s ID of
              Some i \<Rightarrow>
                importPayments arr
                  (s\<lparr>payments :=
                       update_at (payments s) i
                         (\<lambda>py. py\<lparr>pAccountID := AccountID, pAmount := Amount,
                                  pCategory := Category, pStatus := Status\<rparr>)\<rparr>)
            | None \<Rightarrow>
                importPayments arr
                  (s\<lparr>payments :=
                       append_slice (payments s)
                         \<lparr>pID = ID, pAccountID = AccountID, pAmount = Amount,
                          pCategory = Category, pStatus = Status\<rparr>\<rparr>)))"

text \<open>
  An appended favorite gets a generated identifier, not the one of the line:
  \<open>uuids n\<close> is the \<open>n\<close>-th identifier generated during the call.
\<close>

fun importFavorites :: "(nat \<Rightarrow> string) \<Rightarrow> nat \<Rightarrow> string list \<Rightarrow> Service \<Rightarrow> Service \<times> unit result" where
  "importFavorites uuids n [] s = (s, Ok ())"
| "importFavorites uuids n (ac # arr) s =
     (let favoriteStr = Split ac CHR '';'' in
      if length favoriteStr < 2 then importFavorites uuids n arr s
      else if length favoriteStr < 5 then (s, Panic)
      else
        let ID = favoriteStr ! 0;
            AccountID = Atoi (favoriteStr ! 1);
            Name = favoriteStr ! 2;
            Amount = Atoi (favoriteStr ! 3);
            Category = favoriteStr ! 4
        in (case indexFavoriteByID s ID of
              Some i \<Rightarrow>
                importFavorites uuids n arr
                  (s\<lparr>favorites :=
                       update_at (favorites s) i
                         (\<lambda>fw. fw\<lparr>fAccountID := AccountID, fAmount := Amount,
                                  fName := Name, fCategory := Category\<rparr>)\<rparr>)
            | None \<Rightarrow>
                importFavorites uuids (Suc n) arr
                  (s\<lparr>favorites :=
                       append_slice (favorites s)
                         \<lparr>fID = uuids n, fAccountID = AccountID, fName = Name,
                          fAmount = Amount, fCategory = Category\<rparr>\<rparr>)))"

text \<open>
  \<open>Import\<close> is three blocks in sequence, one per collection; each runs its loop only
  when the slice of the collection is not nil. A panic in one block ends the call;
  no statement of \<open>Import\<close> returns an error.
\<close>

definition andThen ::
  "Service \<times> unit result \<Rightarrow> (Service \<Rightarrow> Service \<times> unit result) \<Rightarrow> Service \<times> unit result" where
  "andThen r f = (case r of (s1, Ok u) \<Rightarrow> f s1 | (s1, q) \<Rightarrow> (s1, q))"

definition importAccountsBlock :: "Service \<Rightarrow> string \<Rightarrow> filesystem \<Rightarrow> Service \<times> unit result" where
  "importAccountsBlock s dir fs =
     (if accounts s \<noteq> None
      then importAccounts (Split (readDump fs dir ''accounts'') (CHR 0x0A)) s
      else (s, Ok ()))"

definition importPaymentsBlock :: "Service \<Rightarrow> string \<Rightarrow> filesystem \<Rightarrow> Service \<times> unit result" where
  "importPaymentsBlock s dir fs =
     (if payments s \<noteq> None
      then importPayments (Split (readDump fs dir ''payments'') (CHR 0x0A)) s
      else (s, Ok ()))"

definition importFavoritesBlock ::
  "Service \<Rightarrow> string \<Rightarrow> filesystem \<Rightarrow> (nat \<Rightarrow> string) \<Rightarrow> Service \<times> unit result" where
  "importFavoritesBlock s dir fs uuids =
     (if favorites s \<noteq> None
      then importFavorites uuids 0 (Split (readDump fs dir ''favorites'') (CHR 0x0A)) s
      else (s, Ok ()))"

definition Import :: "Service \<Rightarrow> string \<Rightarrow> filesystem \<Rightarrow> (nat \<Rightarrow> string) \<Rightarrow> Service \<times> unit result" where
  "Import s dir fs uuids =
     andThen
       (andThen (importAccountsBlock s dir fs) (\<lambda>s1. importPaymentsBlock s1 dir fs))
       (\<lambda>s2. importFavoritesBlock s2 dir fs uuids)"

subsection \<open>Sequences of calls\<close>

datatype call =
    CallRegisterAccount Phone
  | CallDeposit "64 word" Money
  | CallPay "64 word" Money PaymentCategory string
  | CallReject string
  | CallRepeat string string
  | CallFavoritePayment string string string
  | CallPayFromFavorite string string
  | CallImport string filesystem "nat \<Rightarrow> string"
  | CallImportFromFile string filesystem
  | CallFavoritePayment_service_go string string string
  | CallPayFromFavorite_service_go string string

text \<open>
  The store a call leaves behind, whatever it returned. The last two calls are
  \<open>FavoritePayment\<close> and \<open>PayFromFavorite\<close> as \<open>pkg/wallet/service.go\<close> has them.
\<close>

fun execute :: "Service \<Rightarrow> call \<Rightarrow> Service" where
  "execute s (CallRegisterAccount phone) = fst (RegisterAccount s phone)"
| "execute s (CallDeposit accountID amount) = fst (Deposit s accountID amount)"
| "execute s (CallPay accountID amount category uuid) = fst (Pay s accountID amount category uuid)"
| "execute s (CallReject paymentID) = fst (Reject s paymentID)"
| "execute s (CallRepeat paymentID uuid) = fst (Repeat s paymentID uuid)"
| "execute s (CallFavoritePayment paymentID name uuid) = fst (FavoritePayment s paymentID name uuid)"
| "execute s (CallPayFromFavorite favoriteID uuid) = fst (PayFromFavorite s favoriteID uuid)"
| "execute s (CallImport dir fs uuids) = fst (Import s dir fs uuids)"
| "execute s (CallImportFromFile path fs) = fst (ImportFromFile s path fs)"
| "execute s (CallFavoritePayment_service_go paymentID name uuid) =
     fst (service_go_FavoritePayment s paymentID name uuid)"
| "execute s (CallPayFromFavorite_service_go favoriteID uuid) =
     fst (service_go_PayFromFavorite s favoriteID uuid)"

fun run :: "Service \<Rightarrow> call list \<Rightarrow> Service" where
  "run s [] = s"
| "run s (c # cs) = run (execute s c) cs"

text \<open>The calls of the ledger proper: everything but the two imports.\<close>

fun ledgerCall :: "call \<Rightarrow> bool" where
  "ledgerCall (CallImport dir fs uuids) = False"
| "ledgerCall (CallImportFromFile path fs) = False"
| "ledgerCall c = True"

text \<open>What a call deposited: the amount of a \<open>Deposit\<close> that returned no error.\<close>

fun deposited :: "Service \<Rightarrow> call \<Rightarrow> Money" where
  "deposited s (CallDeposit accountID amount) =
     (case Deposit s accountID amount of (s1, Ok u) \<Rightarrow> amount | (s1, r) \<Rightarrow> 0)"
| "deposited s c = 0"

fun depositedTotal :: "Service \<Rightarrow> call list \<Rightarrow> Money" where
  "depositedTotal s [] = 0"
| "depositedTotal s (c # cs) = deposited s c + depositedTotal (execute s c) cs"

definition totalBalance :: "Service \<Rightarrow> Money" where
  "totalBalance s = sum_list (map aBalance (elems (accounts s)))"

definition inProgressTotal :: "Service \<Rightarrow> Money" where
  "inProgressTotal s =
     sum_list (map pAmount (filter (\<lambda>p. pStatus p = PaymentStatusInProgress) (elems (payments s))))"

subsection \<open>Conditions on stores, call sequences and files\<close>

text \<open>
  A \<open>Reject\<close> is guarded when the payment it finds, if any, is still \<open>INPROGRESS\<close>; a
  sequence of calls is guarded when each of its calls is, in the store it runs in.
\<close>

fun rejectsInProgress :: "Service \<Rightarrow> call \<Rightarrow> bool" where
  "rejectsInProgress s (CallReject paymentID) =
     (case indexPaymentByID s paymentID of
        None \<Rightarrow> True
      | Some k \<Rightarrow> pStatus (elems (payments s) ! k) = PaymentStatusInProgress)"
| "rejectsInProgress s c = True"

fun noRepeatedReject :: "Service \<Rightarrow> call list \<Rightarrow> bool" where
  "noRepeatedReject s [] = True"
| "noRepeatedReject s (c # cs) = (rejectsInProgress s c \<and> noRepeatedReject (execute s c) cs)"

text \<open>The amount a payment holds while it is \<open>INPROGRESS\<close>, and the quantity the ledger conserves.\<close>

definition inProgressAmount :: "Payment \<Rightarrow> Money" where
  "inProgressAmount p = (if pStatus p = PaymentStatusInProgress then pAmount p else 0)"

definition ledgerSum :: "Service \<Rightarrow> Money" where
  "ledgerSum s = totalBalance s + inProgressTotal s"

text \<open>
  A call's credit fits when the addition to the balance that a \<open>Deposit\<close> or a \<open>Reject\<close>
  is about to make does not overflow \<open>int64\<close>; the source makes no such check.
\<close>

fun creditFits :: "Service \<Rightarrow> call \<Rightarrow> bool" where
  "creditFits s (CallDeposit accountID amount) =
     (case last_from (\<lambda>acc. aID acc = accountID) 0 None (elems (accounts s)) of
        None \<Rightarrow> True
      | Some i \<Rightarrow> sint (aBalance (elems (accounts s) ! i)) + sint amount < 2 ^ 63)"
| "creditFits s (CallReject paymentID) =
     (case indexPaymentByID s paymentID of
        None \<Rightarrow> True
      | Some k \<Rightarrow>
          (case indexAccountByID s (pAccountID (elems (payments s) ! k)) of
             None \<Rightarrow> True
           | Some i \<Rightarrow>
               sint (aBalance (elems (accounts s) ! i)) + sint (pAmount (elems (payments s) ! k))
                 < 2 ^ 63))"
| "creditFits s c = True"

fun noOverflow :: "Service \<Rightarrow> call list \<Rightarrow> bool" where
  "noOverflow s [] = True"
| "noOverflow s (c # cs) = (creditFits s c \<and> noOverflow (execute s c) cs)"

fun notImport :: "call \<Rightarrow> bool" where
  "notImport (CallImport dir fs uuids) = False"
| "notImport c = True"


text \<open>
  A file is decodable for records of \<open>k\<close> fields when each of its records (the pieces
  between the separators \<open>sep\<close>) has fewer than two fields or at least \<open>k\<close>.
\<close>

definition decodable :: "char \<Rightarrow> nat \<Rightarrow> string \<Rightarrow> bool" where
  "decodable sep k data =
     list_all (\<lambda>ac. length (Split ac CHR '';'') < 2 \<or> k \<le> length (Split ac CHR '';''))
       (Split data sep)"

text \<open>
  A string is plain when it holds neither the field separator nor the line separator
  of the dump format.
\<close>

definition plain :: "string \<Rightarrow> bool" where
  "plain str \<longleftrightarrow> CHR '';'' \<notin> set str \<and> CHR 0x0A \<notin> set str"

text \<open>
  The favorites as \<open>Import\<close> rebuilds them in a store without favorites: the same fields
  under the identifiers generated during the call, the \<open>n\<close>-th and following.
\<close>

fun reidentify :: "(nat \<Rightarrow> string) \<Rightarrow> nat \<Rightarrow> Favorite list \<Rightarrow> Favorite list" where
  "reidentify uuids n [] = []"
| "reidentify uuids n (f # fs) = f\<lparr>fID := uuids n\<rparr> # reidentify uuids (Suc n) fs"

text \<open>
  No generated identifier is the exported identifier of a favorite on a later line
  (in which case \<open>Import\<close> would overwrite the favorite just appended).
\<close>

fun freshFor :: "(nat \<Rightarrow> string) \<Rightarrow> nat \<Rightarrow> Favorite list \<Rightarrow> bool" where
  "freshFor uuids n [] = True"
| "freshFor uuids n (f # fs) = ((\<forall>g \<in> set fs. fID g \<noteq> uuids n) \<and> freshFor uuids (Suc n) fs)"

subsection \<open>Concrete stores, files and call sequences\<close>

text \<open>The store the tests start from: no account, every slice empty but not nil.\<close>

definition emptyService :: Service where
  "emptyService = \<lparr>nextAccountID = 0, accounts = Some [], payments = Some [], favorites = Some []\<rparr>"

text \<open>One account with phone \<open>+992000000001\<close> and a balance of 100000.\<close>

definition demoStore :: Service where
  "demoStore = \<lparr>nextAccountID = 1,
      accounts = Some [\<lparr>aID = 1, aPhone = ''+992000000001'', aBalance = 100000\<rparr>],
      payments = Some [], favorites = Some []\<rparr>"

text \<open>The scenario of the specification: register, deposit 100000, pay 50000, reject.\<close>

definition scenarioCalls :: "call list" where
  "scenarioCalls =
     [CallRegisterAccount ''+992000000001'', CallDeposit 1 100000,
      CallPay 1 50000 ''food'' ''p1'', CallReject ''p1'']"

text \<open>Register, deposit 100, pay 50, and reject the payment twice.\<close>

definition doubleRejectCalls :: "call list" where
  "doubleRejectCalls =
     [CallRegisterAccount ''+992000000001'', CallDeposit 1 100, CallPay 1 50 ''food'' ''p1'',
      CallReject ''p1'', CallReject ''p1'']"



text \<open>
  The store of \<open>TestService_PayFromFavorite_success\<close> before its last call, built with
  the \<open>FavoritePayment\<close> of \<open>pkg/wallet/service.go\<close>: an account with 500, a payment \<open>p1\<close> of
  5 in category \<open>salom\<close>, and the favorite \<open>f1\<close> made from it.
\<close>

definition testFavoriteStore :: Service where
  "testFavoriteStore =
     fst (service_go_FavoritePayment
            (run emptyService
               [CallRegisterAccount ''+992928885522'', CallDeposit 1 500,
                CallPay 1 5 ''salom'' ''p1''])
            ''p1'' ''sidal'' ''f1'')"

text \<open>
  \<open>TestService_Export\<close>: three accounts, a deposit, a payment and a favorite are
  exported to \<open>./data\<close>; the test then cuts the second account out of the slice and
  imports \<open>./data\<close> into the same service.
\<close>

definition testExportStore :: Service where
  "testExportStore =
     run emptyService
       [CallRegisterAccount ''+992928885522'', CallRegisterAccount ''+992928000000'',
        CallRegisterAccount ''+992928811111'', CallDeposit 3 500, CallPay 3 5 ''salom'' ''p1'',
        CallFavoritePayment ''p1'' ''sidal'' ''f1'']"

definition testExportDump :: filesystem where
  "testExportDump = fst (Export testExportStore ''./data'' Map.empty)"

definition testCutStore :: Service where
  "testCutStore =
     testExportStore\<lparr>accounts :=
       Some (take 1 (elems (accounts testExportStore)) @ drop 2 (elems (accounts testExportStore)))\<rparr>"

text \<open>
  \<open>TestService_ExportToFile\<close> writes three fresh accounts to \<open>salom.txt\<close>, and
  \<open>TestService_ImportFromFile\<close> reads that file into a service without accounts.
\<close>

definition testFileStore :: Service where
  "testFileStore =
     run emptyService
       [CallRegisterAccount ''+992928885522'', CallRegisterAccount ''+992928000000'',
        CallRegisterAccount ''+992928811111'']"

definition testFile :: filesystem where
  "testFile = fst (ExportToFile testFileStore ''salom.txt'' Map.empty)"

definition testImportStore :: Service where
  "testImportStore = \<lparr>nextAccountID = 0, accounts = Some [], payments = None, favorites = None\<rparr>"

text \<open>Dump files whose only line has fewer fields than its record.\<close>

definition shortAccountDump :: filesystem where
  "shortAccountDump = [''data/accounts.dump'' \<mapsto> ''1;+992000000001'']"

definition shortPaymentDump :: filesystem where
  "shortPaymentDump = [''data/payments.dump'' \<mapsto> ''p1;1;50000;food'']"

text \<open>A directory with the three dump files, each holding one well-formed record.\<close>

definition fullDump :: filesystem where
  "fullDump =
     [''data/accounts.dump'' \<mapsto> ''1;+992000000001;50000'' @ [CHR 0x0A],
      ''data/payments.dump'' \<mapsto> ''p1;1;50000;food;INPROGRESS'' @ [CHR 0x0A],
      ''data/favorites.dump'' \<mapsto> ''f1;1;lunch;50000;food'' @ [CHR 0x0A]]"

text \<open>Records with a field that is not a number.\<close>

definition malformedDump :: filesystem where
  "malformedDump = [''data/accounts.dump'' \<mapsto> ''x;+992000000001;y'' @ [CHR 0x0A]]"

definition malformedFile :: filesystem where
  "malformedFile = [''accounts.txt'' \<mapsto> ''1;+992000000001;y|'']"

text \<open>A store with a payment whose category holds the field separator.\<close>

definition separatorStore :: Service where
  "separatorStore =
     run emptyService
       [CallRegisterAccount ''+992000000001'', CallDeposit 1 500, CallPay 1 5 ''a;b'' ''p1'']"

text \<open>
  Through the methods alone: register an account, import a dump whose two new accounts
  come with the identifiers 3 and 2 in that order, and register again.
\<close>

definition outOfOrderDump :: filesystem where
  "outOfOrderDump =
     [''data/accounts.dump'' \<mapsto>
        ''3;+992000000003;0'' @ [CHR 0x0A] @ ''2;+992000000002;0'' @ [CHR 0x0A]]"

definition counterRegressCalls :: "call list" where
  "counterRegressCalls =
     [CallRegisterAccount ''+992000000001'',
      CallImport ''data'' outOfOrderDump (\<lambda>n. ''u''),
      CallRegisterAccount ''+992000000004'']"

text \<open>Two deposits of the largest \<open>int64\<close> into one account.\<close>

definition overflowCalls :: "call list" where
  "overflowCalls =
     [CallRegisterAccount ''+992000000001'', CallDeposit 1 9223372036854775807,
      CallDeposit 1 9223372036854775807]"

text \<open>
  The store \<open>counterRegressCalls\<close> leaves, after a deposit of 10 to the identifier 3: two
  accounts carry that identifier, and the deposit went to the second of them.
\<close>

definition duplicateIdStore :: Service where
  "duplicateIdStore = run emptyService (counterRegressCalls @ [CallDeposit 3 10])"

text \<open>
  An accounts dump whose first line has two fields and whose second line is a
  complete record, and the dump with the complete record alone.
\<close>

definition shortThenFullDump :: filesystem where
  "shortThenFullDump =
     [''data/accounts.dump'' \<mapsto>
        ''1;+992000000001'' @ [CHR 0x0A] @ ''2;+992000000002;5'' @ [CHR 0x0A]]"

definition fullLineDump :: filesystem where
  "fullLineDump = [''data/accounts.dump'' \<mapsto> ''2;+992000000002;5'' @ [CHR 0x0A]]"

section \<open>Properties\<close>

subsection \<open>The search loops\<close>

lemma first_from_None: "first_from P i xs = None \<longleftrightarrow> (\<forall>x \<in> set xs. \<not> P x)"
  by (induction xs arbitrary: i) auto

lemma first_from_SomeD:
  "first_from P i xs = Some k \<Longrightarrow>
     \<exists>j. k = i + j \<and> j < length xs \<and> P (xs ! j) \<and> (\<forall>j' < j. \<not> P (xs ! j'))"
proof (induction xs arbitrary: i)
  case Nil
  then show ?case by simp
next
  case (Cons x xs)
  show ?case
  proof (cases "P x")
    case True
    with Cons.prems show ?thesis by auto
  next
    case False
    with Cons.prems have "first_from P (Suc i) xs = Some k" by simp
    from Cons.IH [OF this] obtain j where
      j: "k = Suc i + j" "j < length xs" "P (xs ! j)" "\<forall>j' < j. \<not> P (xs ! j')" by blast
    have "\<forall>j' < Suc j. \<not> P ((x # xs) ! j')"
      using False j(4) by (auto simp: nth_Cons split: nat.splits)
    with j show ?thesis
      by (intro exI [of _ "Suc j"]) simp
  qed
qed

lemma first_from_SomeI:
  "j < length xs \<Longrightarrow> P (xs ! j) \<Longrightarrow> (\<forall>j' < j. \<not> P (xs ! j')) \<Longrightarrow> first_from P i xs = Some (i + j)"
proof (induction xs arbitrary: i j)
  case Nil
  then show ?case by simp
next
  case (Cons x xs)
  show ?case
  proof (cases j)
    case 0
    with Cons.prems show ?thesis by simp
  next
    case (Suc m)
    with Cons.prems have nx: "\<not> P x" by auto
    have "first_from P (Suc i) xs = Some (Suc i + m)"
    proof (rule Cons.IH)
      show "m < length xs" using Cons.prems Suc by simp
      show "P (xs ! m)" using Cons.prems Suc by simp
      show "\<forall>j' < m. \<not> P (xs ! j')"
        using Cons.prems(3) Suc by (metis Suc_less_eq nth_Cons_Suc)
    qed
    with nx Suc show ?thesis by simp
  qed
qed

lemma first_from_append:
  "first_from P i (xs @ ys) =
     (case first_from P i xs of Some k \<Rightarrow> Some k | None \<Rightarrow> first_from P (i + length xs) ys)"
  by (induction xs arbitrary: i) (auto split: option.splits)

lemma last_from_None: "last_from P i r xs = None \<longleftrightarrow> (r = None \<and> (\<forall>x \<in> set xs. \<not> P x))"
  by (induction xs arbitrary: i r) auto

lemma last_from_nomatch: "(\<forall>x \<in> set xs. \<not> P x) \<Longrightarrow> last_from P i r xs = r"
  by (induction xs arbitrary: i r) auto

lemma last_from_append: "last_from P i r (xs @ ys) = last_from P (i + length xs) (last_from P i r xs) ys"
  by (induction xs arbitrary: i r) auto

lemma last_from_snoc:
  "last_from P i r (xs @ [x]) = (if P x then Some (i + length xs) else last_from P i r xs)"
  by (simp add: last_from_append)

lemma last_from_SomeD:
  "last_from P i r xs = Some k \<Longrightarrow>
     (r = Some k \<and> (\<forall>x \<in> set xs. \<not> P x)) \<or>
     (\<exists>j. k = i + j \<and> j < length xs \<and> P (xs ! j) \<and>
          (\<forall>j'. j < j' \<and> j' < length xs \<longrightarrow> \<not> P (xs ! j')))"
proof (induction xs rule: rev_induct)
  case Nil
  then show ?case by simp
next
  case (snoc x xs)
  show ?case
  proof (cases "P x")
    case True
    with snoc.prems have "k = i + length xs" by (simp add: last_from_snoc)
    with True show ?thesis by (intro disjI2 exI [of _ "length xs"]) auto
  next
    case False
    with snoc.prems have "last_from P i r xs = Some k" by (simp add: last_from_snoc)
    from snoc.IH [OF this] show ?thesis
    proof
      assume "r = Some k \<and> (\<forall>x \<in> set xs. \<not> P x)"
      with False show ?thesis by simp
    next
      assume "\<exists>j. k = i + j \<and> j < length xs \<and> P (xs ! j) \<and>
          (\<forall>j'. j < j' \<and> j' < length xs \<longrightarrow> \<not> P (xs ! j'))"
      then obtain j where j: "k = i + j" "j < length xs" "P (xs ! j)"
        "\<forall>j'. j < j' \<and> j' < length xs \<longrightarrow> \<not> P (xs ! j')" by blast
      have "\<forall>j'. j < j' \<and> j' < length (xs @ [x]) \<longrightarrow> \<not> P ((xs @ [x]) ! j')"
        using j(4) False by (auto simp: nth_append)
      moreover have "P ((xs @ [x]) ! j)" using j(2,3) by (simp add: nth_append)
      ultimately show ?thesis using j(1,2) by (intro disjI2 exI [of _ j]) simp
    qed
  qed
qed

lemma last_from_None_SomeD:
  "last_from P 0 None xs = Some k \<Longrightarrow>
     k < length xs \<and> P (xs ! k) \<and> (\<forall>j'. k < j' \<and> j' < length xs \<longrightarrow> \<not> P (xs ! j'))"
  by (drule last_from_SomeD) auto

lemma last_from_SomeI:
  "j < length xs \<Longrightarrow> P (xs ! j) \<Longrightarrow> (\<forall>j'. j < j' \<and> j' < length xs \<longrightarrow> \<not> P (xs ! j')) \<Longrightarrow>
     last_from P i r xs = Some (i + j)"
proof -
  assume j: "j < length xs" and p: "P (xs ! j)"
    and after: "\<forall>j'. j < j' \<and> j' < length xs \<longrightarrow> \<not> P (xs ! j')"
  define pre where "pre = take j xs"
  define post where "post = drop (Suc j) xs"
  have xs: "xs = pre @ (xs ! j) # post"
    using j by (simp add: pre_def post_def id_take_nth_drop)
  have lp: "length pre = j" using j by (simp add: pre_def)
  have "\<forall>x \<in> set post. \<not> P x"
  proof
    fix x assume "x \<in> set post"
    then obtain m where m: "m < length post" "x = post ! m" by (auto simp: in_set_conv_nth)
    then have "x = xs ! (Suc j + m)" using j by (simp add: post_def)
    moreover have "Suc j + m < length xs" using m j by (simp add: post_def)
    ultimately show "\<not> P x" using after by simp
  qed
  then have "last_from P (Suc (i + j)) (Some (i + j)) post = Some (i + j)"
    by (rule last_from_nomatch)
  then have "last_from P i r (pre @ (xs ! j) # post) = Some (i + j)"
    using p lp by (simp add: last_from_append)
  with xs show ?thesis by simp
qed

subsection \<open>Signed 64-bit arithmetic without overflow\<close>

lemma sint64_bounds: "- (2 ^ 63) \<le> sint (a::64 word) \<and> sint a < 2 ^ 63"
  using sint_ge [of a] sint_lt [of a] by simp

lemma sint_sub_ok:
  assumes "0 < sint (a::64 word)" "sint a \<le> sint (b::64 word)"
  shows "sint (b - a) = sint b - sint a"
proof -
  have "- (2 ^ 63) \<le> sint b - sint a" "sint b - sint a < 2 ^ 63"
    using assms sint64_bounds [of a] sint64_bounds [of b] by auto
  then have "signed_take_bit 63 (sint b - sint a) = sint b - sint a"
    by (simp add: signed_take_bit_int_eq_self)
  then show ?thesis by (simp add: sint_word_ariths)
qed


subsection \<open>Pay\<close>

text \<open>
  Claim C1. For every store, \<open>Pay\<close> returns \<open>ErrAmountMustBePositive\<close> when the amount
  is at most 0; otherwise \<open>ErrAccountNotFound\<close> when no account has the identifier;
  otherwise, with the account the loop selects (the one at a position \<open>i\<close> after which no
  account has the identifier: the only one when identifiers are distinct),
  \<open>ErrNotEnoughBalance\<close> when its balance is smaller than the amount; otherwise it
  subtracts exactly the amount from that balance (the subtraction does not wrap),
  appends a payment with the account identifier, the amount, the category, the
  generated identifier and status \<open>INPROGRESS\<close>, and returns it. In the three error cases the
  store is unchanged. Whenever \<open>Pay\<close> succeeds the amount is positive and not larger
  than the balance of an account with that identifier.
\<close>

theorem Pay_contract:
  "(sint amount \<le> 0 \<longrightarrow>
      Pay s accountID amount category uuid = (s, Err ErrAmountMustBePositive))
   \<and> (0 < sint amount \<and> (\<forall>a \<in> set (elems (accounts s)). aID a \<noteq> accountID) \<longrightarrow>
      Pay s accountID amount category uuid = (s, Err ErrAccountNotFound))
   \<and> (\<forall>i. 0 < sint amount \<and> i < length (elems (accounts s))
          \<and> aID (elems (accounts s) ! i) = accountID
          \<and> (\<forall>j. i < j \<and> j < length (elems (accounts s)) \<longrightarrow>
                aID (elems (accounts s) ! j) \<noteq> accountID) \<longrightarrow>
        (sint (aBalance (elems (accounts s) ! i)) < sint amount \<longrightarrow>
           Pay s accountID amount category uuid = (s, Err ErrNotEnoughBalance))
        \<and> (sint amount \<le> sint (aBalance (elems (accounts s) ! i)) \<longrightarrow>
           Pay s accountID amount category uuid =
             (s\<lparr>accounts := Some ((elems (accounts s))
                   [i := (elems (accounts s) ! i)
                      \<lparr>aBalance := aBalance (elems (accounts s) ! i) - amount\<rparr>]),
                payments := Some (elems (payments s) @
                   [\<lparr>pID = uuid, pAccountID = accountID, pAmount = amount,
                     pCategory = category, pStatus = PaymentStatusInProgress\<rparr>])\<rparr>,
              Ok \<lparr>pID = uuid, pAccountID = accountID, pAmount = amount,
                  pCategory = category, pStatus = PaymentStatusInProgress\<rparr>)
           \<and> sint (aBalance (elems (accounts s) ! i) - amount) =
               sint (aBalance (elems (accounts s) ! i)) - sint amount))
   \<and> (\<forall>s' p. Pay s accountID amount category uuid = (s', Ok p) \<longrightarrow>
        0 < sint amount \<and>
        (\<exists>a \<in> set (elems (accounts s)). aID a = accountID \<and> sint amount \<le> sint (aBalance a)))"
proof (intro conjI allI impI)
  assume "sint amount \<le> 0"
  then show "Pay s accountID amount category uuid = (s, Err ErrAmountMustBePositive)"
    by (simp add: Pay_def)
next
  assume "0 < sint amount \<and> (\<forall>a \<in> set (elems (accounts s)). aID a \<noteq> accountID)"
  then have "0 < sint amount"
    and "last_from (\<lambda>acc. aID acc = accountID) 0 None (elems (accounts s)) = None"
    by (simp_all add: last_from_None)
  then show "Pay s accountID amount category uuid = (s, Err ErrAccountNotFound)"
    by (simp add: Pay_def)
next
  fix i
  assume h: "0 < sint amount \<and> i < length (elems (accounts s))
          \<and> aID (elems (accounts s) ! i) = accountID
          \<and> (\<forall>j. i < j \<and> j < length (elems (accounts s)) \<longrightarrow>
                aID (elems (accounts s) ! j) \<noteq> accountID)"
  then have sel: "last_from (\<lambda>acc. aID acc = accountID) 0 None (elems (accounts s)) = Some i"
    using last_from_SomeI [of i "elems (accounts s)" "\<lambda>acc. aID acc = accountID" 0 None]
    by simp
  {
    assume "sint (aBalance (elems (accounts s) ! i)) < sint amount"
    with h sel show "Pay s accountID amount category uuid = (s, Err ErrNotEnoughBalance)"
      by (simp add: Pay_def)
  }
  {
    assume le: "sint amount \<le> sint (aBalance (elems (accounts s) ! i))"
    obtain xs where xs: "accounts s = Some xs"
      using h by (cases "accounts s") auto
    with h sel le show "Pay s accountID amount category uuid =
             (s\<lparr>accounts := Some ((elems (accounts s))
                   [i := (elems (accounts s) ! i)
                      \<lparr>aBalance := aBalance (elems (accounts s) ! i) - amount\<rparr>]),
                payments := Some (elems (payments s) @
                   [\<lparr>pID = uuid, pAccountID = accountID, pAmount = amount,
                     pCategory = category, pStatus = PaymentStatusInProgress\<rparr>])\<rparr>,
              Ok \<lparr>pID = uuid, pAccountID = accountID, pAmount = amount,
                  pCategory = category, pStatus = PaymentStatusInProgress\<rparr>)"
      by (simp add: Pay_def update_at_def append_slice_def Let_def)
    from h le show "sint (aBalance (elems (accounts s) ! i) - amount) =
               sint (aBalance (elems (accounts s) ! i)) - sint amount"
      by (simp add: sint_sub_ok)
  }
next
  fix s' p
  assume ok: "Pay s accountID amount category uuid = (s', Ok p)"
  then show "0 < sint amount"
    by (auto simp: Pay_def split: if_splits)
  from ok obtain i where
    sel: "last_from (\<lambda>acc. aID acc = accountID) 0 None (elems (accounts s)) = Some i"
    and le: "sint amount \<le> sint (aBalance (elems (accounts s) ! i))"
    by (auto simp: Pay_def Let_def split: if_splits option.splits)
  from last_from_None_SomeD [OF sel]
  have "i < length (elems (accounts s))" "aID (elems (accounts s) ! i) = accountID"
    by simp_all
  with le show "\<exists>a \<in> set (elems (accounts s)). aID a = accountID \<and> sint amount \<le> sint (aBalance a)"
    by (intro bexI [of _ "elems (accounts s) ! i"]) simp_all
qed

theorem Pay_contract_witness:
  "Pay demoStore 1 0 ''food'' ''u1'' = (demoStore, Err ErrAmountMustBePositive)
   \<and> Pay demoStore 2 50000 ''food'' ''u1'' = (demoStore, Err ErrAccountNotFound)
   \<and> Pay demoStore 1 100001 ''food'' ''u1'' = (demoStore, Err ErrNotEnoughBalance)
   \<and> Pay demoStore 1 50000 ''food'' ''u1'' =
       (\<lparr>nextAccountID = 1,
         accounts = Some [\<lparr>aID = 1, aPhone = ''+992000000001'', aBalance = 50000\<rparr>],
         payments = Some [\<lparr>pID = ''u1'', pAccountID = 1, pAmount = 50000,
                           pCategory = ''food'', pStatus = ''INPROGRESS''\<rparr>],
         favorites = Some []\<rparr>,
        Ok \<lparr>pID = ''u1'', pAccountID = 1, pAmount = 50000,
            pCategory = ''food'', pStatus = ''INPROGRESS''\<rparr>)"
proof -
  have a: "Pay demoStore 1 0 ''food'' ''u1'' = (demoStore, Err ErrAmountMustBePositive)"
    using Pay_contract [of 0 demoStore 1 "''food''" "''u1''"] by simp
  have b: "Pay demoStore 2 50000 ''food'' ''u1'' = (demoStore, Err ErrAccountNotFound)"
    using Pay_contract [of 50000 demoStore 2 "''food''" "''u1''"] by (simp add: demoStore_def)
  have c: "Pay demoStore 1 100001 ''food'' ''u1'' = (demoStore, Err ErrNotEnoughBalance)"
    using Pay_contract [of 100001 demoStore 1 "''food''" "''u1''"]
    by (simp add: demoStore_def)
  have d: "Pay demoStore 1 50000 ''food'' ''u1'' =
       (\<lparr>nextAccountID = 1,
         accounts = Some [\<lparr>aID = 1, aPhone = ''+992000000001'', aBalance = 50000\<rparr>],
         payments = Some [\<lparr>pID = ''u1'', pAccountID = 1, pAmount = 50000,
                           pCategory = ''food'', pStatus = ''INPROGRESS''\<rparr>],
         favorites = Some []\<rparr>,
        Ok \<lparr>pID = ''u1'', pAccountID = 1, pAmount = 50000,
            pCategory = ''food'', pStatus = ''INPROGRESS''\<rparr>)"
    using Pay_contract [of 50000 demoStore 1 "''food''" "''u1''"]
    by (simp add: demoStore_def PaymentStatusInProgress_def)
  from a b c d show ?thesis by blast
qed

subsection \<open>Reject after Pay\<close>

lemma Pay_OkD:
  assumes "Pay s accountID amount category uuid = (s1, Ok p)"
  shows "\<exists>xs i. accounts s = Some xs \<and> i < length xs \<and> aID (xs ! i) = accountID
           \<and> (\<forall>j. i < j \<and> j < length xs \<longrightarrow> aID (xs ! j) \<noteq> accountID)
           \<and> 0 < sint amount \<and> sint amount \<le> sint (aBalance (xs ! i))
           \<and> p = \<lparr>pID = uuid, pAccountID = accountID, pAmount = amount,
                   pCategory = category, pStatus = PaymentStatusInProgress\<rparr>
           \<and> s1 = s\<lparr>accounts := Some (xs[i := (xs ! i)\<lparr>aBalance := aBalance (xs ! i) - amount\<rparr>]),
                     payments := Some (elems (payments s) @ [p])\<rparr>"
proof -
  from assms have pos: "0 < sint amount"
    by (auto simp: Pay_def split: if_splits)
  from assms obtain i where
    sel: "last_from (\<lambda>acc. aID acc = accountID) 0 None (elems (accounts s)) = Some i"
    by (auto simp: Pay_def Let_def split: if_splits option.splits)
  from last_from_None_SomeD [OF sel]
  have i: "i < length (elems (accounts s))" "aID (elems (accounts s) ! i) = accountID"
    "\<forall>j. i < j \<and> j < length (elems (accounts s)) \<longrightarrow> aID (elems (accounts s) ! j) \<noteq> accountID"
    by simp_all
  then obtain xs where xs: "accounts s = Some xs"
    by (cases "accounts s") auto
  from assms pos sel have le: "sint amount \<le> sint (aBalance (elems (accounts s) ! i))"
    by (auto simp: Pay_def Let_def split: if_splits)
  from assms pos sel le xs have
    "p = \<lparr>pID = uuid, pAccountID = accountID, pAmount = amount,
          pCategory = category, pStatus = PaymentStatusInProgress\<rparr>"
    "s1 = s\<lparr>accounts := Some (xs[i := (xs ! i)\<lparr>aBalance := aBalance (xs ! i) - amount\<rparr>]),
            payments := Some (elems (payments s) @ [p])\<rparr>"
    by (auto simp: Pay_def Let_def update_at_def append_slice_def)
  with xs i pos le show ?thesis by auto
qed

lemma first_from_distinct:
  assumes "distinct (map f xs)" "i < length xs"
  shows "first_from (\<lambda>x. f x = f (xs ! i)) 0 xs = Some i"
proof -
  have "\<forall>j < i. f (xs ! j) \<noteq> f (xs ! i)"
  proof (intro allI impI)
    fix j assume "j < i"
    then have "j < length (map f xs)" "i < length (map f xs)" "j \<noteq> i"
      using assms(2) by simp_all
    with assms(1) have "map f xs ! j \<noteq> map f xs ! i"
      using nth_eq_iff_index_eq [of "map f xs" j i] by blast
    then show "f (xs ! j) \<noteq> f (xs ! i)"
      using \<open>j < i\<close> assms(2) by simp
  qed
  with assms(2) show ?thesis
    using first_from_SomeI [of i xs "\<lambda>x. f x = f (xs ! i)" 0] by simp
qed

lemma first_from_fresh_snoc:
  assumes "\<forall>x \<in> set xs. \<not> P x" "P y"
  shows "first_from P 0 (xs @ [y]) = Some (length xs)"
proof -
  from assms(1) have "first_from P 0 xs = None" by (simp add: first_from_None)
  with assms(2) show ?thesis by (simp add: first_from_append)
qed

text \<open>
  In a store whose account identifiers are pairwise distinct, let \<open>Pay\<close> have just
  created the payment \<open>p\<close> under a generated identifier that no earlier payment
  carries. Then \<open>Reject\<close> of \<open>p\<close> succeeds, sets the status of \<open>p\<close> to \<open>FAIL\<close> and gives the
  accounts exactly their values from before \<open>Pay\<close>; and a second \<open>Reject\<close> of \<open>p\<close>
  succeeds again and adds the amount of \<open>p\<close> to the balance of the account once more.
  The condition on the identifiers is not an invariant of the code: \<open>Import\<close> can
  make \<open>RegisterAccount\<close> issue an identifier twice.
\<close>

lemma Reject_after_Pay_distinct:
  assumes ok: "Pay s accountID amount category uuid = (s1, Ok p)"
    and ids: "distinct (map aID (elems (accounts s)))"
    and fresh: "\<forall>q \<in> set (elems (payments s)). pID q \<noteq> uuid"
  shows "\<exists>s2 s3 i.
           Reject s1 (pID p) = (s2, Ok ())
           \<and> payments s2 = Some (elems (payments s) @ [p\<lparr>pStatus := PaymentStatusFail\<rparr>])
           \<and> accounts s2 = accounts s
           \<and> Reject s2 (pID p) = (s3, Ok ())
           \<and> payments s3 = payments s2
           \<and> i < length (elems (accounts s)) \<and> aID (elems (accounts s) ! i) = accountID
           \<and> accounts s3 = Some ((elems (accounts s))
                 [i := (elems (accounts s) ! i)
                    \<lparr>aBalance := aBalance (elems (accounts s) ! i) + pAmount p\<rparr>])"
proof -
  from Pay_OkD [OF ok] obtain xs i where
    xs: "accounts s = Some xs" and i: "i < length xs" "aID (xs ! i) = accountID"
    and p: "p = \<lparr>pID = uuid, pAccountID = accountID, pAmount = amount,
                 pCategory = category, pStatus = PaymentStatusInProgress\<rparr>"
    and s1: "s1 = s\<lparr>accounts := Some (xs[i := (xs ! i)\<lparr>aBalance := aBalance (xs ! i) - amount\<rparr>]),
                    payments := Some (elems (payments s) @ [p])\<rparr>"
    by blast
  define ps where "ps = elems (payments s)"
  define a1 where "a1 = (xs ! i)\<lparr>aBalance := aBalance (xs ! i) - amount\<rparr>"
  define pf where "pf = p\<lparr>pStatus := PaymentStatusFail\<rparr>"
  have dist: "distinct (map aID xs)" using ids xs by simp
  have dist1: "distinct (map aID (xs[i := a1]))"
  proof -
    have "map aID (xs[i := a1]) = map aID xs"
      using i by (simp add: a1_def map_update list_update_same_conv)
    with dist show ?thesis by simp
  qed
  \<comment> \<open>the first call\<close>
  have pay1: "indexPaymentByID s1 (pID p) = Some (length ps)"
    using fresh p by (simp add: indexPaymentByID_def s1 ps_def first_from_fresh_snoc)
  have acc1: "indexAccountByID s1 accountID = Some i"
  proof -
    have "first_from (\<lambda>x. aID x = aID ((xs[i := a1]) ! i)) 0 (xs[i := a1]) = Some i"
      using dist1 i by (intro first_from_distinct) simp_all
    then show ?thesis using i by (simp add: indexAccountByID_def s1 a1_def)
  qed
  define s2 where "s2 = s\<lparr>accounts := Some xs, payments := Some (ps @ [pf])\<rparr>"
  have undo: "a1\<lparr>aBalance := aBalance a1 + amount\<rparr> = xs ! i"
    by (simp add: a1_def)
  have r1: "Reject s1 (pID p) = (s2, Ok ())"
    using pay1 acc1 i undo p
    by (simp add: Reject_def Let_def s1 s2_def update_at_def ps_def [symmetric] pf_def a1_def [symmetric])
  \<comment> \<open>the second call\<close>
  have pay2: "indexPaymentByID s2 (pID p) = Some (length ps)"
    using fresh p by (simp add: indexPaymentByID_def s2_def ps_def pf_def first_from_fresh_snoc)
  have acc2: "indexAccountByID s2 accountID = Some i"
  proof -
    have "first_from (\<lambda>x. aID x = aID (xs ! i)) 0 xs = Some i"
      using dist i by (intro first_from_distinct)
    then show ?thesis using i by (simp add: indexAccountByID_def s2_def)
  qed
  define s3 where
    "s3 = s2\<lparr>accounts := Some (xs[i := (xs ! i)\<lparr>aBalance := aBalance (xs ! i) + pAmount p\<rparr>])\<rparr>"
  have r2: "Reject s2 (pID p) = (s3, Ok ())"
    using pay2 acc2 i p
    by (simp add: Reject_def Let_def s2_def s3_def update_at_def pf_def)
  have "payments s2 = Some (elems (payments s) @ [p\<lparr>pStatus := PaymentStatusFail\<rparr>])"
    by (simp add: s2_def ps_def pf_def)
  moreover have "accounts s2 = accounts s" by (simp add: s2_def xs)
  moreover have "payments s3 = payments s2" by (simp add: s3_def)
  moreover have "accounts s3 = Some ((elems (accounts s))
                 [i := (elems (accounts s) ! i)
                    \<lparr>aBalance := aBalance (elems (accounts s) ! i) + pAmount p\<rparr>])"
    by (simp add: s3_def xs)
  ultimately show ?thesis using r1 r2 i xs by auto
qed

lemma Reject_after_Pay_distinct_example:
  "\<exists>s1 p s2 s3.
     Pay demoStore 1 50000 ''food'' ''u1'' = (s1, Ok p)
     \<and> distinct (map aID (elems (accounts demoStore)))
     \<and> (\<forall>q \<in> set (elems (payments demoStore)). pID q \<noteq> ''u1'')
     \<and> Reject s1 ''u1'' = (s2, Ok ())
     \<and> payments s2 = Some [p\<lparr>pStatus := ''FAIL''\<rparr>]
     \<and> accounts s2 = Some [\<lparr>aID = 1, aPhone = ''+992000000001'', aBalance = 100000\<rparr>]
     \<and> Reject s2 ''u1'' = (s3, Ok ())
     \<and> accounts s3 = Some [\<lparr>aID = 1, aPhone = ''+992000000001'', aBalance = 150000\<rparr>]"
proof -
  define p where "p = \<lparr>pID = ''u1'', pAccountID = 1, pAmount = 50000,
                       pCategory = ''food'', pStatus = PaymentStatusInProgress\<rparr>"
  define s1 where "s1 = demoStore
     \<lparr>accounts := Some [\<lparr>aID = 1, aPhone = ''+992000000001'', aBalance = 50000\<rparr>],
      payments := Some [p]\<rparr>"
  have ok: "Pay demoStore 1 50000 ''food'' ''u1'' = (s1, Ok p)"
    by (simp add: Pay_def demoStore_def s1_def p_def update_at_def append_slice_def Let_def)
  have ids: "distinct (map aID (elems (accounts demoStore)))"
    by (simp add: demoStore_def)
  have fresh: "\<forall>q \<in> set (elems (payments demoStore)). pID q \<noteq> ''u1''"
    by (simp add: demoStore_def)
  from Reject_after_Pay_distinct [OF ok ids fresh] obtain s2 s3 i where
    r: "Reject s1 (pID p) = (s2, Ok ())"
      "payments s2 = Some (elems (payments demoStore) @ [p\<lparr>pStatus := PaymentStatusFail\<rparr>])"
      "accounts s2 = accounts demoStore"
      "Reject s2 (pID p) = (s3, Ok ())"
      "i < length (elems (accounts demoStore))"
      "accounts s3 = Some ((elems (accounts demoStore))
                 [i := (elems (accounts demoStore) ! i)
                    \<lparr>aBalance := aBalance (elems (accounts demoStore) ! i) + pAmount p\<rparr>])"
    by blast
  from r(5) have i0: "i = 0" by (simp add: demoStore_def)
  have "Reject s1 ''u1'' = (s2, Ok ())" using r(1) by (simp add: p_def)
  moreover have "payments s2 = Some [p\<lparr>pStatus := ''FAIL''\<rparr>]"
    using r(2) by (simp add: demoStore_def PaymentStatusFail_def)
  moreover have "accounts s2 = Some [\<lparr>aID = 1, aPhone = ''+992000000001'', aBalance = 100000\<rparr>]"
    using r(3) by (simp add: demoStore_def)
  moreover have "Reject s2 ''u1'' = (s3, Ok ())" using r(4) by (simp add: p_def)
  moreover have "accounts s3 = Some [\<lparr>aID = 1, aPhone = ''+992000000001'', aBalance = 150000\<rparr>]"
    using r(6) i0 by (simp add: demoStore_def p_def)
  ultimately show ?thesis using ok ids fresh by blast
qed

subsection \<open>Conservation of money\<close>

lemma sum_list_map_update:
  fixes f :: "'a \<Rightarrow> 'b::ab_group_add"
  shows "i < length xs \<Longrightarrow>
    sum_list (map f (xs[i := y])) = sum_list (map f xs) - f (xs ! i) + f y"
  by (induction xs arbitrary: i) (auto simp: nth_Cons split: nat.splits)

lemma inProgressTotal_alt:
  "inProgressTotal s = sum_list (map inProgressAmount (elems (payments s)))"
  unfolding inProgressTotal_def inProgressAmount_def by (rule sum_list_map_filter')

lemma ledgerSum_RegisterAccount: "ledgerSum (fst (RegisterAccount s phone)) = ledgerSum s"
  by (simp add: RegisterAccount_def ledgerSum_def totalBalance_def inProgressTotal_def
      append_slice_def Let_def)

lemma ledgerSum_Deposit:
  "ledgerSum (fst (Deposit s accountID amount)) =
     ledgerSum s + (case Deposit s accountID amount of (s1, Ok u) \<Rightarrow> amount | (s1, r) \<Rightarrow> 0)"
proof (cases "sint amount \<le> 0")
  case True
  then show ?thesis by (simp add: Deposit_def)
next
  case False
  show ?thesis
  proof (cases "last_from (\<lambda>acc. aID acc = accountID) 0 None (elems (accounts s))")
    case None
    with False show ?thesis by (simp add: Deposit_def)
  next
    case (Some i)
    from last_from_None_SomeD [OF Some] have i: "i < length (elems (accounts s))" by simp
    then obtain xs where xs: "accounts s = Some xs" by (cases "accounts s") auto
    with False Some i show ?thesis
      by (simp add: Deposit_def ledgerSum_def totalBalance_def inProgressTotal_def
          update_at_def sum_list_map_update)
  qed
qed

lemma ledgerSum_Pay: "ledgerSum (fst (Pay s accountID amount category uuid)) = ledgerSum s"
proof (cases "sint amount \<le> 0")
  case True
  then show ?thesis by (simp add: Pay_def)
next
  case False
  show ?thesis
  proof (cases "last_from (\<lambda>acc. aID acc = accountID) 0 None (elems (accounts s))")
    case None
    with False show ?thesis by (simp add: Pay_def)
  next
    case (Some i)
    from last_from_None_SomeD [OF Some] have i: "i < length (elems (accounts s))" by simp
    then obtain xs where xs: "accounts s = Some xs" by (cases "accounts s") auto
    with False Some i show ?thesis
      by (simp add: Pay_def ledgerSum_def totalBalance_def inProgressTotal_def
          update_at_def append_slice_def sum_list_map_update Let_def)
  qed
qed

lemma status_Fail_not_InProgress: "PaymentStatusFail \<noteq> PaymentStatusInProgress"
  by (simp add: PaymentStatusFail_def PaymentStatusInProgress_def)

lemma ledgerSum_Reject:
  assumes "rejectsInProgress s (CallReject paymentID)"
  shows "ledgerSum (fst (Reject s paymentID)) = ledgerSum s"
proof (cases "indexPaymentByID s paymentID")
  case None
  then show ?thesis by (simp add: Reject_def)
next
  case (Some k)
  with assms have st: "pStatus (elems (payments s) ! k) = PaymentStatusInProgress" by simp
  from Some have "\<exists>j. k = 0 + j \<and> j < length (elems (payments s))"
    unfolding indexPaymentByID_def by (blast dest: first_from_SomeD)
  then have k: "k < length (elems (payments s))" by simp
  then obtain ps where ps: "payments s = Some ps" by (cases "payments s") auto
  show ?thesis
  proof (cases "indexAccountByID s (pAccountID (elems (payments s) ! k))")
    case None
    with Some show ?thesis by (simp add: Reject_def Let_def)
  next
    case (Some i) note acc = this
    then have "\<exists>j. i = 0 + j \<and> j < length (elems (accounts s))"
      unfolding indexAccountByID_def by (blast dest: first_from_SomeD)
    then have i: "i < length (elems (accounts s))" by simp
    then obtain xs where xs: "accounts s = Some xs" by (cases "accounts s") auto
    have "indexAccountByID (s\<lparr>payments := X\<rparr>) a = indexAccountByID s a" for X a
      by (simp add: indexAccountByID_def)
    with \<open>indexPaymentByID s paymentID = Some k\<close> acc k i st ps xs show ?thesis
      by (simp add: Reject_def Let_def ledgerSum_def totalBalance_def inProgressTotal_alt
          update_at_def sum_list_map_update inProgressAmount_def status_Fail_not_InProgress)
  qed
qed

lemma FindPaymentByID_fst: "fst (FindPaymentByID s paymentID) = s"
  by (simp add: FindPaymentByID_def split: option.splits)

lemma FindFavoriteByID_fst: "fst (FindFavoriteByID s favoriteID) = s"
  by (simp add: FindFavoriteByID_def split: option.splits)

lemma ledgerSum_Repeat: "ledgerSum (fst (Repeat s paymentID uuid)) = ledgerSum s"
  using FindPaymentByID_fst [of s paymentID]
  by (auto simp: Repeat_def ledgerSum_Pay split: prod.splits result.splits)

lemma ledgerSum_PayFromFavorite: "ledgerSum (fst (PayFromFavorite s favoriteID uuid)) = ledgerSum s"
  using FindFavoriteByID_fst [of s favoriteID]
  by (auto simp: PayFromFavorite_def ledgerSum_Pay split: prod.splits result.splits)

lemma ledgerSum_FavoritePayment:
  "ledgerSum (fst (FavoritePayment s paymentID name uuid)) = ledgerSum s"
  using FindPaymentByID_fst [of s paymentID]
  by (auto simp: FavoritePayment_def ledgerSum_def totalBalance_def inProgressTotal_def Let_def
      split: prod.splits result.splits)

lemma ledgerSum_service_go_FavoritePayment:
  "ledgerSum (fst (service_go_FavoritePayment s paymentID name uuid)) = ledgerSum s"
  using FindPaymentByID_fst [of s paymentID]
  by (auto simp: service_go_FavoritePayment_def ledgerSum_def totalBalance_def inProgressTotal_def
      Let_def split: prod.splits result.splits)

lemma ledgerSum_service_go_PayFromFavorite:
  "ledgerSum (fst (service_go_PayFromFavorite s favoriteID uuid)) = ledgerSum s"
  using FindFavoriteByID_fst [of s favoriteID]
  by (auto simp: service_go_PayFromFavorite_def ledgerSum_Repeat split: prod.splits result.splits)

lemma ledgerSum_execute:
  assumes "ledgerCall c" "rejectsInProgress s c"
  shows "ledgerSum (execute s c) = ledgerSum s + deposited s c"
proof (cases c)
  case (CallDeposit accountID amount)
  then show ?thesis by (simp add: ledgerSum_Deposit)
next
  case (CallReject paymentID)
  with assms(2) show ?thesis by (simp add: ledgerSum_Reject del: rejectsInProgress.simps)
qed (use assms(1) in \<open>simp_all add: ledgerSum_RegisterAccount ledgerSum_Pay ledgerSum_Repeat
      ledgerSum_PayFromFavorite ledgerSum_FavoritePayment ledgerSum_service_go_FavoritePayment
      ledgerSum_service_go_PayFromFavorite\<close>)

lemma ledgerSum_run:
  "list_all ledgerCall cs \<Longrightarrow> noRepeatedReject s cs \<Longrightarrow>
     ledgerSum (run s cs) = ledgerSum s + depositedTotal s cs"
proof (induction cs arbitrary: s)
  case Nil
  then show ?case by simp
next
  case (Cons c cs)
  then have "ledgerSum (run (execute s c) cs) = ledgerSum (execute s c) + depositedTotal (execute s c) cs"
    by simp
  moreover have "ledgerSum (execute s c) = ledgerSum s + deposited s c"
    using Cons.prems by (intro ledgerSum_execute) simp_all
  ultimately show ?case by (simp add: add.assoc)
qed

text \<open>
  Claim C3, amended. In every store reached from the empty store by a sequence of
  \<open>RegisterAccount\<close>, \<open>Deposit\<close>, \<open>Pay\<close>, \<open>Reject\<close>, \<open>Repeat\<close>, \<open>FavoritePayment\<close> and
  \<open>PayFromFavorite\<close> calls (the last two in either version of the source) in which no
  \<open>Reject\<close> is applied to a payment that is no longer
  \<open>INPROGRESS\<close>, the sum of the balances plus the sum of the amounts of the \<open>INPROGRESS\<close>
  payments equals the sum of the amounts successfully deposited, all three sums taken
  in \<open>int64\<close> arithmetic.
\<close>

theorem ledger_conservation:
  assumes "list_all ledgerCall cs" and "noRepeatedReject zeroService cs"
  shows "totalBalance (run zeroService cs) + inProgressTotal (run zeroService cs) =
           depositedTotal zeroService cs"
proof -
  have "ledgerSum zeroService = 0"
    by (simp add: ledgerSum_def totalBalance_def inProgressTotal_def zeroService_def)
  with ledgerSum_run [OF assms] show ?thesis by (simp add: ledgerSum_def)
qed

theorem ledger_conservation_witness:
  "list_all ledgerCall scenarioCalls \<and> noRepeatedReject zeroService scenarioCalls \<and>
   totalBalance (run zeroService scenarioCalls) + inProgressTotal (run zeroService scenarioCalls) =
     depositedTotal zeroService scenarioCalls \<and>
   depositedTotal zeroService scenarioCalls = 100000"
proof -
  have a: "list_all ledgerCall scenarioCalls" by code_simp
  have b: "noRepeatedReject zeroService scenarioCalls" by code_simp
  have c: "depositedTotal zeroService scenarioCalls = 100000" by code_simp
  from ledger_conservation [OF a b] a b c show ?thesis by simp
qed

text \<open>
  The claim as stated, for every sequence of those calls, fails when a payment is
  rejected twice: the second \<open>Reject\<close> credits the account again, so 100 deposited become
  a balance of 150 with no payment in progress.
\<close>

theorem ledger_conservation_counterexample:
  "list_all ledgerCall doubleRejectCalls \<and>
   totalBalance (run zeroService doubleRejectCalls)
     + inProgressTotal (run zeroService doubleRejectCalls) = 150 \<and>
   depositedTotal zeroService doubleRejectCalls = 100 \<and>
   totalBalance (run zeroService doubleRejectCalls)
     + inProgressTotal (run zeroService doubleRejectCalls)
     \<noteq> depositedTotal zeroService doubleRejectCalls"
  by code_simp

subsection \<open>Evaluation of the definitions on concrete inputs\<close>

lemmas eval_defs = Atoi_def is_digit_def FormatInt_def dec_digits.simps digit_char_def
  Account_ToString_def Payment_ToString_def Favorite_ToString_def
  RegisterAccount_def Deposit_def Pay_def Reject_def Repeat_def FavoritePayment_def
  PayFromFavorite_def FindPaymentByID_def FindFavoriteByID_def FindAccountByID_def
  indexAccountByID_def indexPaymentByID_def indexFavoriteByID_def update_at_def
  append_slice_def Let_def zeroService_def PaymentStatusInProgress_def PaymentStatusFail_def
  ImportFromFile_def ExportToFile_def Import_def andThen_def importAccountsBlock_def
  importPaymentsBlock_def importFavoritesBlock_def Export_def readDump_def dumpPath_def

subsection \<open>Balances stay non-negative\<close>




















text \<open>
  The condition on overflow is needed as well: \<open>Deposit\<close> checks no upper bound, and
  the second deposit of the largest \<open>int64\<close> wraps the balance around to -2.
\<close>

lemma Deposit_overflow_negative:
  "list_all notImport overflowCalls \<and> \<not> noOverflow zeroService overflowCalls \<and>
   sint (aBalance (elems (accounts (run zeroService overflowCalls)) ! 0)) = - 2"
  by (simp add: overflowCalls_def eval_defs)

subsection \<open>The loops of Import\<close>

lemma importAccounts_frame:
  "payments (fst (importAccounts arr s)) = payments s \<and>
   favorites (fst (importAccounts arr s)) = favorites s"
proof (induction arr arbitrary: s)
  case Nil
  then show ?case by simp
next
  case (Cons ac arr)
  show ?case
    by (simp add: Let_def Cons.IH split: option.splits)
qed

lemma importPayments_frame:
  "accounts (fst (importPayments arr s)) = accounts s \<and>
   nextAccountID (fst (importPayments arr s)) = nextAccountID s \<and>
   favorites (fst (importPayments arr s)) = favorites s"
proof (induction arr arbitrary: s)
  case Nil
  then show ?case by simp
next
  case (Cons ac arr)
  show ?case
    by (simp add: Let_def Cons.IH split: option.splits)
qed

lemma importFavorites_frame:
  "accounts (fst (importFavorites uuids n arr s)) = accounts s \<and>
   nextAccountID (fst (importFavorites uuids n arr s)) = nextAccountID s \<and>
   payments (fst (importFavorites uuids n arr s)) = payments s"
proof (induction arr arbitrary: s n)
  case Nil
  then show ?case by simp
next
  case (Cons ac arr)
  show ?case
    by (simp add: Let_def Cons.IH split: option.splits)
qed

lemma importAccounts_no_error: "snd (importAccounts arr s) \<noteq> Err e"
  by (induction arr arbitrary: s) (simp_all add: Let_def split: option.splits)

lemma importPayments_no_error: "snd (importPayments arr s) \<noteq> Err e"
  by (induction arr arbitrary: s) (simp_all add: Let_def split: option.splits)

lemma importFavorites_no_error: "snd (importFavorites uuids n arr s) \<noteq> Err e"
  by (induction arr arbitrary: s n) (simp_all add: Let_def split: option.splits)

lemma importAccounts_decodable:
  "list_all (\<lambda>ac. length (Split ac CHR '';'') < 2 \<or> 3 \<le> length (Split ac CHR '';'')) arr \<Longrightarrow>
     snd (importAccounts arr s) = Ok ()"
  by (induction arr arbitrary: s) (auto simp: Let_def split: option.splits)

lemma importPayments_decodable:
  "list_all (\<lambda>ac. length (Split ac CHR '';'') < 2 \<or> 5 \<le> length (Split ac CHR '';'')) arr \<Longrightarrow>
     snd (importPayments arr s) = Ok ()"
  by (induction arr arbitrary: s) (auto simp: Let_def split: option.splits)

lemma importFavorites_decodable:
  "list_all (\<lambda>ac. length (Split ac CHR '';'') < 2 \<or> 5 \<le> length (Split ac CHR '';'')) arr \<Longrightarrow>
     snd (importFavorites uuids n arr s) = Ok ()"
  by (induction arr arbitrary: s n) (auto simp: Let_def split: option.splits)

lemma andThen_fst:
  assumes "P (fst r)" and "\<And>s1. P s1 \<Longrightarrow> P (fst (f s1))"
  shows "P (fst (andThen r f))"
  using assms by (cases r; cases "snd r") (auto simp: andThen_def)

lemma andThen_snd:
  assumes "Q (snd r)" and "\<And>s1. Q (snd (f s1))"
  shows "Q (snd (andThen r f))"
  using assms by (cases r; cases "snd r") (auto simp: andThen_def)

lemma Import_invariant:
  assumes A: "\<And>arr s0. P s0 \<Longrightarrow> accounts s0 \<noteq> None \<Longrightarrow> P (fst (importAccounts arr s0))"
    and B: "\<And>arr s0. P s0 \<Longrightarrow> payments s0 \<noteq> None \<Longrightarrow> P (fst (importPayments arr s0))"
    and C: "\<And>arr n s0. P s0 \<Longrightarrow> favorites s0 \<noteq> None \<Longrightarrow>
              P (fst (importFavorites uuids n arr s0))"
    and s: "P s"
  shows "P (fst (Import s dir fs uuids))"
  unfolding Import_def
proof (rule andThen_fst [where P = P], rule andThen_fst [where P = P])
  show "P (fst (importAccountsBlock s dir fs))"
    unfolding importAccountsBlock_def using A s by (cases "accounts s \<noteq> None") simp_all
  show "P (fst (importPaymentsBlock s1 dir fs))" if "P s1" for s1
    unfolding importPaymentsBlock_def using B that by (cases "payments s1 \<noteq> None") simp_all
  show "P (fst (importFavoritesBlock s1 dir fs uuids))" if "P s1" for s1
    unfolding importFavoritesBlock_def using C that by (cases "favorites s1 \<noteq> None") simp_all
qed

lemma Import_result:
  assumes "\<And>arr s0. Q (snd (importAccounts arr s0))"
    and "\<And>arr s0. Q (snd (importPayments arr s0))"
    and "\<And>arr n s0. Q (snd (importFavorites uuids n arr s0))"
    and "Q (Ok ())"
  shows "Q (snd (Import s dir fs uuids))"
  unfolding Import_def
  by (rule andThen_snd [where Q = Q], rule andThen_snd [where Q = Q])
    (simp_all add: importAccountsBlock_def importPaymentsBlock_def importFavoritesBlock_def assms)

lemma Import_frame_accounts:
  assumes "accounts s = None"
  shows "accounts (fst (Import s dir fs uuids)) = None \<and>
         nextAccountID (fst (Import s dir fs uuids)) = nextAccountID s"
  by (rule Import_invariant [where P = "\<lambda>t. accounts t = None \<and> nextAccountID t = nextAccountID s"])
    (simp_all add: assms importPayments_frame importFavorites_frame)

lemma Import_frame_payments:
  assumes "payments s = None"
  shows "payments (fst (Import s dir fs uuids)) = None"
  by (rule Import_invariant [where P = "\<lambda>t. payments t = None"])
    (simp_all add: assms importAccounts_frame importFavorites_frame)

lemma Import_frame_favorites:
  assumes "favorites s = None"
  shows "favorites (fst (Import s dir fs uuids)) = None"
  by (rule Import_invariant [where P = "\<lambda>t. favorites t = None"])
    (simp_all add: assms importAccounts_frame importPayments_frame)

text \<open>
  Claim C10. On the zero value of the service (the three slices nil) \<open>Import\<close> changes
  nothing and returns no error, whatever the files hold; and in any store a
  collection whose slice is nil is left nil by \<open>Import\<close> (for the accounts, the counter
  is left as it was too).
\<close>

theorem Import_nil_slices:
  "Import zeroService dir fs uuids = (zeroService, Ok ())
   \<and> (accounts s = None \<longrightarrow>
        accounts (fst (Import s dir fs uuids)) = None \<and>
        nextAccountID (fst (Import s dir fs uuids)) = nextAccountID s)
   \<and> (payments s = None \<longrightarrow> payments (fst (Import s dir fs uuids)) = None)
   \<and> (favorites s = None \<longrightarrow> favorites (fst (Import s dir fs uuids)) = None)"
proof -
  have "Import zeroService dir fs uuids = (zeroService, Ok ())"
    by (simp add: Import_def andThen_def importAccountsBlock_def importPaymentsBlock_def
        importFavoritesBlock_def zeroService_def)
  then show ?thesis
    using Import_frame_accounts [of s dir fs uuids] Import_frame_payments [of s dir fs uuids]
      Import_frame_favorites [of s dir fs uuids]
    by blast
qed

theorem Import_nil_slices_witness:
  "Import zeroService ''data'' fullDump (\<lambda>n. ''u'') = (zeroService, Ok ())
   \<and> fullDump ''data/accounts.dump'' = Some (''1;+992000000001;50000'' @ [CHR 0x0A])
   \<and> fullDump ''data/payments.dump'' = Some (''p1;1;50000;food;INPROGRESS'' @ [CHR 0x0A])
   \<and> fullDump ''data/favorites.dump'' = Some (''f1;1;lunch;50000;food'' @ [CHR 0x0A])
   \<and> accounts testImportStore \<noteq> None \<and> payments testImportStore = None
   \<and> favorites testImportStore = None
   \<and> accounts (fst (Import testImportStore ''data'' fullDump (\<lambda>n. ''u''))) =
       Some [\<lparr>aID = 1, aPhone = ''+992000000001'', aBalance = 50000\<rparr>]
   \<and> payments (fst (Import testImportStore ''data'' fullDump (\<lambda>n. ''u''))) = None
   \<and> favorites (fst (Import testImportStore ''data'' fullDump (\<lambda>n. ''u''))) = None"
proof -
  have a: "accounts (fst (Import testImportStore ''data'' fullDump (\<lambda>n. ''u''))) =
       Some [\<lparr>aID = 1, aPhone = ''+992000000001'', aBalance = 50000\<rparr>]"
    by (simp add: testImportStore_def fullDump_def eval_defs)
  have b: "payments testImportStore = None" "favorites testImportStore = None"
    "accounts testImportStore \<noteq> None"
    by (simp_all add: testImportStore_def)
  have c: "fullDump ''data/accounts.dump'' = Some (''1;+992000000001;50000'' @ [CHR 0x0A])"
    "fullDump ''data/payments.dump'' = Some (''p1;1;50000;food;INPROGRESS'' @ [CHR 0x0A])"
    "fullDump ''data/favorites.dump'' = Some (''f1;1;lunch;50000;food'' @ [CHR 0x0A])"
    by (simp_all add: fullDump_def)
  from Import_nil_slices [of "''data''" fullDump "\<lambda>n. ''u''" testImportStore] a b c
  show ?thesis by simp
qed

subsection \<open>Short and malformed lines\<close>

lemma Import_no_error: "snd (Import s dir fs uuids) \<noteq> Err e"
  by (rule Import_result [where Q = "\<lambda>r. r \<noteq> Err e"])
    (simp_all add: importAccounts_no_error importPayments_no_error importFavorites_no_error)

lemma Import_decodable:
  assumes "decodable (CHR 0x0A) 3 (readDump fs dir ''accounts'')"
    and "decodable (CHR 0x0A) 5 (readDump fs dir ''payments'')"
    and "decodable (CHR 0x0A) 5 (readDump fs dir ''favorites'')"
  shows "snd (Import s dir fs uuids) = Ok ()"
  unfolding Import_def
  by (rule andThen_snd [where Q = "\<lambda>r. r = Ok ()"], rule andThen_snd [where Q = "\<lambda>r. r = Ok ()"])
    (use assms in \<open>simp_all add: importAccountsBlock_def importPaymentsBlock_def
      importFavoritesBlock_def decodable_def importAccounts_decodable importPayments_decodable
      importFavorites_decodable\<close>)

lemma RegisterAccount_no_panic: "snd (RegisterAccount s phone) \<noteq> Panic"
  by (simp add: RegisterAccount_def Let_def)

lemma Deposit_no_panic: "snd (Deposit s accountID amount) \<noteq> Panic"
  by (simp add: Deposit_def split: option.splits)

lemma importFromFileRecords_decodable:
  "list_all (\<lambda>ac. length (Split ac CHR '';'') < 2 \<or> 3 \<le> length (Split ac CHR '';'')) arr \<Longrightarrow>
     snd (importFromFileRecords arr s) \<noteq> Panic"
proof (induction arr arbitrary: s)
  case Nil
  then show ?case by simp
next
  case (Cons ac arr)
  then show ?case
    using RegisterAccount_no_panic Deposit_no_panic
    by (auto simp: Let_def split: prod.splits result.splits) (metis snd_conv)+
qed

text \<open>
  What the guard of the loops covers: each decoding loop of \<open>Import\<close> and
  \<open>ImportFromFile\<close> skips a line with fewer than two fields and goes on with the
  remaining lines. \<open>Import\<close> returns no error on any input, and it completes when every
  line of each dump has fewer than two fields or at least as many as its record (3
  for an account, 5 for a payment or a favorite); \<open>ImportFromFile\<close> does not panic when
  every record of the file has fewer than two fields or at least 3.
\<close>

lemma short_lines_skipped:
  "(length (Split ac CHR '';'') < 2 \<longrightarrow>
      importAccounts (ac # arr) s = importAccounts arr s \<and>
      importPayments (ac # arr) s = importPayments arr s \<and>
      importFavorites uuids n (ac # arr) s = importFavorites uuids n arr s \<and>
      importFromFileRecords (ac # arr) s = importFromFileRecords arr s)
   \<and> (\<forall>e. snd (Import s dir fs uuids) \<noteq> Err e)
   \<and> (decodable (CHR 0x0A) 3 (readDump fs dir ''accounts'') \<and>
       decodable (CHR 0x0A) 5 (readDump fs dir ''payments'') \<and>
       decodable (CHR 0x0A) 5 (readDump fs dir ''favorites'') \<longrightarrow>
         snd (Import s dir fs uuids) = Ok ())
   \<and> (\<forall>str. fs path = Some str \<and> decodable CHR ''|'' 3 str \<longrightarrow>
         snd (ImportFromFile s path fs) \<noteq> Panic)"
  using Import_no_error [of s dir fs uuids] Import_decodable [of fs dir s uuids]
    importFromFileRecords_decodable [of _ s]
  by (auto simp: ImportFromFile_def decodable_def)

lemma short_lines_skipped_example:
  "length (Split '''' CHR '';'') < 2
   \<and> importAccounts ['''', ''''] emptyService = importAccounts [''''] emptyService
   \<and> decodable (CHR 0x0A) 3 (readDump fullDump ''data'' ''accounts'')
   \<and> decodable (CHR 0x0A) 5 (readDump fullDump ''data'' ''payments'')
   \<and> decodable (CHR 0x0A) 5 (readDump fullDump ''data'' ''favorites'')
   \<and> snd (Import emptyService ''data'' fullDump (\<lambda>n. ''u'')) = Ok ()
   \<and> decodable CHR ''|'' 3 (''1;+992000000001;50000'' @ [CHR 0x0A])
   \<and> snd (ImportFromFile emptyService ''data/accounts.dump'' fullDump) \<noteq> Panic"
proof -
  have a: "length (Split '''' CHR '';'') < 2" by simp
  have b: "decodable (CHR 0x0A) 3 (readDump fullDump ''data'' ''accounts'')"
    "decodable (CHR 0x0A) 5 (readDump fullDump ''data'' ''payments'')"
    "decodable (CHR 0x0A) 5 (readDump fullDump ''data'' ''favorites'')"
    by (simp_all add: decodable_def readDump_def dumpPath_def fullDump_def)
  have c: "fullDump ''data/accounts.dump'' = Some (''1;+992000000001;50000'' @ [CHR 0x0A])"
    by (simp add: fullDump_def)
  have d: "decodable CHR ''|'' 3 (''1;+992000000001;50000'' @ [CHR 0x0A])"
    by (simp add: decodable_def)
  from a b c d short_lines_skipped [of "''''" "['''']" emptyService "\<lambda>n. ''u''" 0 "''data''" fullDump
      "''data/accounts.dump''"]
  show ?thesis by simp
qed

text \<open>
  A line with all its fields is decoded whatever they hold: a field that is not a
  number is read as 0 (the error of \<open>strconv.Atoi\<close> is discarded), so \<open>Import\<close> makes an
  account with identifier 0 out of such a line, and \<open>ImportFromFile\<close> registers the
  account and then returns the error of \<open>Deposit\<close> for the amount 0.
\<close>

lemma malformed_number_read_as_zero:
  "malformedDump ''data/accounts.dump'' = Some (''x;+992000000001;y'' @ [CHR 0x0A])
   \<and> Import testImportStore ''data'' malformedDump (\<lambda>n. ''u'') =
       (\<lparr>nextAccountID = 0,
         accounts = Some [\<lparr>aID = 0, aPhone = ''+992000000001'', aBalance = 0\<rparr>],
         payments = None, favorites = None\<rparr>, Ok ())
   \<and> malformedFile ''accounts.txt'' = Some ''1;+992000000001;y|''
   \<and> ImportFromFile testImportStore ''accounts.txt'' malformedFile =
       (\<lparr>nextAccountID = 1,
         accounts = Some [\<lparr>aID = 1, aPhone = ''+992000000001'', aBalance = 0\<rparr>],
         payments = None, favorites = None\<rparr>, Err ErrAmountMustBePositive)"
  by (simp add: testImportStore_def malformedDump_def malformedFile_def eval_defs)

text \<open>
  Claim C8: decoding during \<open>Import\<close> and \<open>ImportFromFile\<close> skips every short line, in
  particular any line with fewer fields than its record declares, without an error
  and without aborting or crashing the processing of the remaining lines. The code
  does not: the loops test for fewer than two fields and then index the fields up to
  the last one (index 2 for an account, 4 for a payment or a favorite), so a line with
  two fields or more but fewer than its record has panics. \<open>Import\<close> of an accounts dump
  with the one line \<open>1;+992000000001\<close> panics, and so does a payments dump with a line of
  four fields; when a complete record follows the short line it is never read (alone,
  the same record is imported); \<open>ImportFromFile\<close> panics on such a record after it has
  registered the account.
\<close>

theorem Import_short_line_panics:
  "shortAccountDump ''data/accounts.dump'' = Some ''1;+992000000001''
   \<and> length (Split ''1;+992000000001'' CHR '';'') = 2
   \<and> Import testImportStore ''data'' shortAccountDump (\<lambda>n. ''u'') = (testImportStore, Panic)
   \<and> Import emptyService ''data'' shortPaymentDump (\<lambda>n. ''u'') = (emptyService, Panic)
   \<and> Import testImportStore ''data'' shortThenFullDump (\<lambda>n. ''u'') = (testImportStore, Panic)
   \<and> Import testImportStore ''data'' fullLineDump (\<lambda>n. ''u'') =
       (\<lparr>nextAccountID = 2,
         accounts = Some [\<lparr>aID = 2, aPhone = ''+992000000002'', aBalance = 5\<rparr>],
         payments = None, favorites = None\<rparr>, Ok ())
   \<and> ImportFromFile testImportStore ''a.txt'' [''a.txt'' \<mapsto> ''1;+992000000001''] =
       (\<lparr>nextAccountID = 1,
         accounts = Some [\<lparr>aID = 1, aPhone = ''+992000000001'', aBalance = 0\<rparr>],
         payments = None, favorites = None\<rparr>, Panic)"
  by (simp add: testImportStore_def shortAccountDump_def shortPaymentDump_def emptyService_def
      shortThenFullDump_def fullLineDump_def eval_defs)

subsection \<open>Failing calls\<close>

text \<open>
  Claim C9, amended. \<open>RegisterAccount\<close>, \<open>Deposit\<close>, \<open>Pay\<close>, \<open>Reject\<close>, \<open>Repeat\<close>,
  \<open>FavoritePayment\<close> and \<open>PayFromFavorite\<close> (in both versions of the last two) leave the
  store unchanged whenever they return an error, the three lookups never change it,
  and \<open>ImportFromFile\<close> leaves it unchanged when the file cannot be opened.
\<close>

theorem error_leaves_store_unchanged:
  "(\<forall>e. snd (RegisterAccount s phone) = Err e \<longrightarrow> fst (RegisterAccount s phone) = s)
   \<and> (\<forall>e. snd (Deposit s accountID amount) = Err e \<longrightarrow> fst (Deposit s accountID amount) = s)
   \<and> (\<forall>e. snd (Pay s accountID amount category uuid) = Err e \<longrightarrow>
          fst (Pay s accountID amount category uuid) = s)
   \<and> (\<forall>e. snd (Reject s paymentID) = Err e \<longrightarrow> fst (Reject s paymentID) = s)
   \<and> (\<forall>e. snd (Repeat s paymentID uuid) = Err e \<longrightarrow> fst (Repeat s paymentID uuid) = s)
   \<and> (\<forall>e. snd (FavoritePayment s paymentID name uuid) = Err e \<longrightarrow>
          fst (FavoritePayment s paymentID name uuid) = s)
   \<and> (\<forall>e. snd (PayFromFavorite s favoriteID uuid) = Err e \<longrightarrow>
          fst (PayFromFavorite s favoriteID uuid) = s)
   \<and> (\<forall>e. snd (service_go_FavoritePayment s paymentID name uuid) = Err e \<longrightarrow>
          fst (service_go_FavoritePayment s paymentID name uuid) = s)
   \<and> (\<forall>e. snd (service_go_PayFromFavorite s favoriteID uuid) = Err e \<longrightarrow>
          fst (service_go_PayFromFavorite s favoriteID uuid) = s)
   \<and> fst (FindAccountByID s accountID) = s
   \<and> fst (FindPaymentByID s paymentID) = s
   \<and> fst (FindFavoriteByID s favoriteID) = s
   \<and> (fs path = None \<longrightarrow> ImportFromFile s path fs = (s, Err ErrOpen))"
proof -
  have pay: "snd (Pay s a m c u) = Err e \<Longrightarrow> fst (Pay s a m c u) = s" for a m c u e
    by (auto simp: Pay_def Let_def split: if_splits option.splits)
  have fp: "FindPaymentByID s p = (s1, r) \<Longrightarrow> s1 = s" for p s1 r
    by (auto simp: FindPaymentByID_def split: option.splits)
  have ff: "FindFavoriteByID s p = (s1, r) \<Longrightarrow> s1 = s" for p s1 r
    by (auto simp: FindFavoriteByID_def split: option.splits)
  have rep: "snd (Repeat s p u) = Err e \<Longrightarrow> fst (Repeat s p u) = s" for p u e
    using pay by (auto simp: Repeat_def split: prod.splits result.splits dest!: fp)
  have 1: "\<forall>e. snd (RegisterAccount s phone) = Err e \<longrightarrow> fst (RegisterAccount s phone) = s"
    by (simp add: RegisterAccount_def Let_def)
  have 2: "\<forall>e. snd (Deposit s accountID amount) = Err e \<longrightarrow> fst (Deposit s accountID amount) = s"
    by (simp add: Deposit_def split: option.splits)
  have 3: "\<forall>e. snd (Pay s accountID amount category uuid) = Err e \<longrightarrow>
          fst (Pay s accountID amount category uuid) = s"
    using pay by blast
  have 4: "\<forall>e. snd (Reject s paymentID) = Err e \<longrightarrow> fst (Reject s paymentID) = s"
    by (simp add: Reject_def Let_def split: option.splits)
  have 5: "\<forall>e. snd (Repeat s paymentID uuid) = Err e \<longrightarrow> fst (Repeat s paymentID uuid) = s"
    using rep by blast
  have 6: "\<forall>e. snd (FavoritePayment s paymentID name uuid) = Err e \<longrightarrow>
          fst (FavoritePayment s paymentID name uuid) = s"
    by (auto simp: FavoritePayment_def Let_def split: prod.splits result.splits dest!: fp)
  have 7: "\<forall>e. snd (PayFromFavorite s favoriteID uuid) = Err e \<longrightarrow>
          fst (PayFromFavorite s favoriteID uuid) = s"
    using pay by (auto simp: PayFromFavorite_def split: prod.splits result.splits dest!: ff)
  have 8: "\<forall>e. snd (service_go_FavoritePayment s paymentID name uuid) = Err e \<longrightarrow>
          fst (service_go_FavoritePayment s paymentID name uuid) = s"
    by (auto simp: service_go_FavoritePayment_def Let_def split: prod.splits result.splits dest!: fp)
  have 9: "\<forall>e. snd (service_go_PayFromFavorite s favoriteID uuid) = Err e \<longrightarrow>
          fst (service_go_PayFromFavorite s favoriteID uuid) = s"
    using rep by (auto simp: service_go_PayFromFavorite_def split: prod.splits result.splits dest!: ff)
  have 10: "fst (FindAccountByID s accountID) = s"
    by (simp add: FindAccountByID_def split: option.splits)
  have 11: "fst (FindPaymentByID s paymentID) = s" by (rule FindPaymentByID_fst)
  have 12: "fst (FindFavoriteByID s favoriteID) = s" by (rule FindFavoriteByID_fst)
  have 13: "fs path = None \<longrightarrow> ImportFromFile s path fs = (s, Err ErrOpen)"
    by (simp add: ImportFromFile_def)
  from 1 2 3 4 5 6 7 8 9 10 11 12 13 show ?thesis by blast
qed

theorem error_leaves_store_unchanged_witness:
  "snd (RegisterAccount demoStore ''+992000000001'') = Err ErrPhoneRegistered
   \<and> fst (RegisterAccount demoStore ''+992000000001'') = demoStore
   \<and> snd (Deposit demoStore 2 10) = Err ErrAccountNotFound
   \<and> fst (Deposit demoStore 2 10) = demoStore
   \<and> snd (Pay demoStore 2 10 ''food'' ''u1'') = Err ErrAccountNotFound
   \<and> fst (Pay demoStore 2 10 ''food'' ''u1'') = demoStore
   \<and> snd (Reject demoStore ''p9'') = Err ErrPaymentNotFound
   \<and> fst (Reject demoStore ''p9'') = demoStore
   \<and> snd (Repeat demoStore ''p9'' ''u1'') = Err ErrPaymentNotFound
   \<and> fst (Repeat demoStore ''p9'' ''u1'') = demoStore
   \<and> snd (FavoritePayment demoStore ''p9'' ''lunch'' ''u1'') = Err ErrPaymentNotFound
   \<and> fst (FavoritePayment demoStore ''p9'' ''lunch'' ''u1'') = demoStore
   \<and> snd (PayFromFavorite demoStore ''f9'' ''u1'') = Err ErrFavoriteNotFound
   \<and> fst (PayFromFavorite demoStore ''f9'' ''u1'') = demoStore
   \<and> ImportFromFile demoStore ''none.txt'' Map.empty = (demoStore, Err ErrOpen)"
proof -
  have e: "snd (RegisterAccount demoStore ''+992000000001'') = Err ErrPhoneRegistered"
    "snd (Deposit demoStore 2 10) = Err ErrAccountNotFound"
    "snd (Pay demoStore 2 10 ''food'' ''u1'') = Err ErrAccountNotFound"
    "snd (Reject demoStore ''p9'') = Err ErrPaymentNotFound"
    "snd (Repeat demoStore ''p9'' ''u1'') = Err ErrPaymentNotFound"
    "snd (FavoritePayment demoStore ''p9'' ''lunch'' ''u1'') = Err ErrPaymentNotFound"
    "snd (PayFromFavorite demoStore ''f9'' ''u1'') = Err ErrFavoriteNotFound"
    by (simp_all add: demoStore_def eval_defs)
  from e error_leaves_store_unchanged [of demoStore "''+992000000001''" 2 10 "''food''"
      "''u1''" "''p9''" "''lunch''" "''f9''" Map.empty "''none.txt''"]
  show ?thesis by simp
qed

text \<open>
  The claim fails for \<open>ImportFromFile\<close>, which has no rollback: the file that
  \<open>TestService_ExportToFile\<close> writes holds accounts with balance 0, so importing it
  registers the first account and then returns the error of \<open>Deposit\<close>.
\<close>

theorem error_leaves_store_unchanged_counterexample:
  "testFile ''salom.txt'' = Some ''1;+992928885522;0|2;+992928000000;0|3;+992928811111;0|''
   \<and> snd (ImportFromFile testImportStore ''salom.txt'' testFile) = Err ErrAmountMustBePositive
   \<and> accounts testImportStore = Some []
   \<and> accounts (fst (ImportFromFile testImportStore ''salom.txt'' testFile)) =
       Some [\<lparr>aID = 1, aPhone = ''+992928885522'', aBalance = 0\<rparr>]
   \<and> nextAccountID testImportStore = 0
   \<and> nextAccountID (fst (ImportFromFile testImportStore ''salom.txt'' testFile)) = 1"
  by (simp add: testImportStore_def emptyService_def testFile_def testFileStore_def eval_defs)

subsection \<open>PayFromFavorite\<close>

text \<open>
  The later version of \<open>PayFromFavorite\<close> is \<open>Pay\<close> with the fields of the favorite it finds.
\<close>

lemma PayFromFavorite_direct:
  "(indexFavoriteByID s favoriteID = None \<longrightarrow>
      PayFromFavorite s favoriteID uuid = (s, Err ErrFavoriteNotFound))
   \<and> (\<forall>i. indexFavoriteByID s favoriteID = Some i \<longrightarrow>
      PayFromFavorite s favoriteID uuid =
        Pay s (fAccountID (elems (favorites s) ! i)) (fAmount (elems (favorites s) ! i))
          (fCategory (elems (favorites s) ! i)) uuid)"
  by (simp add: PayFromFavorite_def FindFavoriteByID_def)

text \<open>
  Claim C5: \<open>PayFromFavorite\<close> returns \<open>ErrFavoriteNotFound\<close> when no favorite has the
  identifier, and otherwise behaves exactly like \<open>Pay\<close> with the account, the amount and
  the category of the favorite. At the store of \<open>TestService_PayFromFavorite_success\<close>
  the code of \<open>pkg/wallet/service.go\<close> does not: the favorite \<open>f1\<close>
  exists and \<open>Pay\<close> with its fields succeeds, but \<open>PayFromFavorite\<close> of
  \<open>pkg/wallet/service.go\<close> looks for a payment with the identifier of the favorite and
  returns \<open>ErrPaymentNotFound\<close>; the later version does what the claim says.
\<close>

theorem service_go_PayFromFavorite_fails:
  "FindFavoriteByID testFavoriteStore ''f1'' =
     (testFavoriteStore,
      Ok \<lparr>fID = ''f1'', fAccountID = 1, fName = ''sidal'', fAmount = 5, fCategory = ''salom''\<rparr>)
   \<and> snd (Pay testFavoriteStore 1 5 ''salom'' ''u2'') =
       Ok \<lparr>pID = ''u2'', pAccountID = 1, pAmount = 5, pCategory = ''salom'',
           pStatus = PaymentStatusInProgress\<rparr>
   \<and> service_go_PayFromFavorite testFavoriteStore ''f1'' ''u2'' =
       (testFavoriteStore, Err ErrPaymentNotFound)
   \<and> PayFromFavorite testFavoriteStore ''f1'' ''u2'' = Pay testFavoriteStore 1 5 ''salom'' ''u2''"
  by (simp add: testFavoriteStore_def emptyService_def service_go_PayFromFavorite_def
      service_go_FavoritePayment_def eval_defs)

subsection \<open>The account counter\<close>

lemma RegisterAccount_sequential:
  "snd (RegisterAccount s phone) = Ok account \<Longrightarrow>
     aID account = nextAccountID s + 1 \<and>
     nextAccountID (fst (RegisterAccount s phone)) = nextAccountID s + 1"
  by (auto simp: RegisterAccount_def Let_def split: if_splits)

text \<open>
  In \<open>pkg/wallet/service.go\<close> the counter also moves in \<open>FavoritePayment\<close>: after one
  registration and one favorite it is 2, and the second account gets the identifier 3.
\<close>

lemma service_go_FavoritePayment_counter:
  "nextAccountID testFavoriteStore = 2
   \<and> map aID (elems (accounts testFavoriteStore)) = [1]
   \<and> snd (RegisterAccount testFavoriteStore ''+992000000009'') =
       Ok \<lparr>aID = 3, aPhone = ''+992000000009'', aBalance = 0\<rparr>"
  by (simp add: testFavoriteStore_def emptyService_def service_go_FavoritePayment_def eval_defs)

text \<open>
  Claim C7: the account counter never decreases, identifiers are never used twice,
  and \<open>Import\<close> advances the counter to the largest identifier it imports. The code
  does not, at the store of \<open>TestService_Export\<close>: the counter is 3 and the accounts 1 and
  3 are in the store when \<open>./data\<close> is imported. \<open>Import\<close> appends account 2 and sets the
  counter to 2, below its value before the call and below the identifier 3 in the
  store; the next \<open>RegisterAccount\<close> then hands out the identifier 3 a second time.
  The same happens through the methods alone when the lines of a dump bring new
  accounts in descending order of identifier.
\<close>

theorem Import_counter_regress:
  "nextAccountID testCutStore = 3
   \<and> map aID (elems (accounts testCutStore)) = [1, 3]
   \<and> snd (Import testCutStore ''./data'' testExportDump (\<lambda>n. ''u'')) = Ok ()
   \<and> nextAccountID (fst (Import testCutStore ''./data'' testExportDump (\<lambda>n. ''u''))) = 2
   \<and> map aID (elems (accounts (fst (Import testCutStore ''./data'' testExportDump (\<lambda>n. ''u'')))))
       = [1, 3, 2]
   \<and> snd (RegisterAccount (fst (Import testCutStore ''./data'' testExportDump (\<lambda>n. ''u'')))
            ''+992000000009'')
       = Ok \<lparr>aID = 3, aPhone = ''+992000000009'', aBalance = 0\<rparr>
   \<and> nextAccountID (run emptyService (take 2 counterRegressCalls)) = 2
   \<and> map aID (elems (accounts (run emptyService (take 2 counterRegressCalls)))) = [1, 3, 2]
   \<and> map aID (elems (accounts (run emptyService counterRegressCalls))) = [1, 3, 2, 3]"
  by (simp add: testCutStore_def testExportStore_def testExportDump_def emptyService_def
      counterRegressCalls_def outOfOrderDump_def eval_defs)

subsection \<open>Reject after Pay with an identifier issued twice\<close>

text \<open>
  Claim C2: \<open>Reject\<close> of a payment just created by \<open>Pay\<close> sets its status to \<open>FAIL\<close> and
  credits the amount to the account, restoring its balance exactly to the value
  from before \<open>Pay\<close>; a second \<open>Reject\<close> credits the amount again. The code does not
  restore the balance in the store that \<open>counterRegressCalls\<close> and a deposit leave,
  where the identifier 3 was issued twice: the loop of \<open>Pay\<close> runs to the end and debits
  the last account with the identifier (10 becomes 6), while \<open>Reject\<close> goes through
  \<open>FindAccountByID\<close>, which returns the first one, and credits that (0 becomes 4). The
  account \<open>Pay\<close> debited stays at 6, and the second \<open>Reject\<close> credits the other account
  once more.
\<close>

theorem Reject_credits_another_account:
  "map aID (elems (accounts duplicateIdStore)) = [1, 3, 2, 3]
   \<and> map aBalance (elems (accounts duplicateIdStore)) = [0, 0, 0, 10]
   \<and> payments duplicateIdStore = Some []
   \<and> snd (Pay duplicateIdStore 3 4 ''food'' ''p1'') =
       Ok \<lparr>pID = ''p1'', pAccountID = 3, pAmount = 4, pCategory = ''food'',
           pStatus = ''INPROGRESS''\<rparr>
   \<and> map aBalance (elems (accounts (fst (Pay duplicateIdStore 3 4 ''food'' ''p1'')))) =
       [0, 0, 0, 6]
   \<and> snd (Reject (fst (Pay duplicateIdStore 3 4 ''food'' ''p1'')) ''p1'') = Ok ()
   \<and> map pStatus (elems (payments (fst (Reject (fst (Pay duplicateIdStore 3 4 ''food'' ''p1''))
                                       ''p1'')))) = [''FAIL'']
   \<and> map aBalance (elems (accounts (fst (Reject (fst (Pay duplicateIdStore 3 4 ''food'' ''p1''))
                                        ''p1'')))) = [0, 4, 0, 6]
   \<and> snd (Reject (fst (Reject (fst (Pay duplicateIdStore 3 4 ''food'' ''p1'')) ''p1'')) ''p1'')
       = Ok ()
   \<and> map aBalance (elems (accounts (fst (Reject (fst (Reject
          (fst (Pay duplicateIdStore 3 4 ''food'' ''p1'')) ''p1'')) ''p1'')))) = [0, 8, 0, 6]"
  by (simp add: duplicateIdStore_def counterRegressCalls_def outOfOrderDump_def emptyService_def
      eval_defs)

subsection \<open>The codec: numbers\<close>

lemma digit_char_props:
  assumes "d < 10"
  shows "is_digit (digit_char d)" "(of_char (digit_char d) :: nat) - 48 = d"
    "digit_char d \<noteq> CHR '';''" "digit_char d \<noteq> CHR 0x0A" "digit_char d \<noteq> CHR ''-''"
    "digit_char d \<noteq> CHR ''+''" "digit_char d \<noteq> CHR ''|''"
proof -
  from assms have "d \<in> {0, 1, 2, 3, 4, 5, 6, 7, 8, 9}" by auto
  then show "is_digit (digit_char d)" "(of_char (digit_char d) :: nat) - 48 = d"
    "digit_char d \<noteq> CHR '';''" "digit_char d \<noteq> CHR 0x0A" "digit_char d \<noteq> CHR ''-''"
    "digit_char d \<noteq> CHR ''+''" "digit_char d \<noteq> CHR ''|''"
    by (auto simp: digit_char_def is_digit_def)
qed

lemma parse_digits_append:
  "parse_digits n (xs @ ys) =
     (case parse_digits n xs of None \<Rightarrow> None | Some m \<Rightarrow> parse_digits m ys)"
  by (induction xs arbitrary: n) auto

lemma parse_dec_digits: "parse_digits 0 (dec_digits n) = Some n"
proof (induction n rule: dec_digits.induct)
  case (1 n)
  show ?case
  proof (cases "n < 10")
    case True
    then show ?thesis
      by (subst dec_digits.simps) (simp add: digit_char_props)
  next
    case False
    then have "parse_digits 0 (dec_digits (n div 10)) = Some (n div 10)" by (rule "1.IH")
    moreover have "n mod 10 < 10" by simp
    ultimately show ?thesis
      using False by (subst dec_digits.simps) (simp add: parse_digits_append digit_char_props)
  qed
qed

lemma dec_digits_all_digits: "c \<in> set (dec_digits n) \<Longrightarrow> \<exists>d < 10. c = digit_char d"
proof (induction n rule: dec_digits.induct)
  case (1 n)
  show ?case
  proof (cases "n < 10")
    case True
    with "1.prems" show ?thesis
      by (subst (asm) dec_digits.simps) auto
  next
    case False
    from False "1.prems" have "c \<in> set (dec_digits (n div 10)) \<or> c = digit_char (n mod 10)"
      by (subst (asm) dec_digits.simps) auto
    then show ?thesis
    proof
      assume "c \<in> set (dec_digits (n div 10))"
      with False show ?thesis by (rule "1.IH")
    next
      assume "c = digit_char (n mod 10)"
      moreover have "n mod 10 < 10" by simp
      ultimately show ?thesis by blast
    qed
  qed
qed

lemma dec_digits_not_Nil: "dec_digits n \<noteq> []"
  by (subst dec_digits.simps) simp

lemma FormatInt_chars:
  assumes "c \<in> set (FormatInt w)"
  shows "c \<noteq> CHR '';'' \<and> c \<noteq> CHR 0x0A \<and> c \<noteq> CHR ''|''"
proof -
  from assms have "c = CHR ''-'' \<or> (\<exists>d < 10. c = digit_char d)"
    by (auto simp: FormatInt_def dest: dec_digits_all_digits split: if_splits)
  then show ?thesis by (auto simp: digit_char_props)
qed

lemma Atoi_FormatInt: "Atoi (FormatInt w) = w"
proof (cases "sint w < 0")
  case True
  define m where "m = nat (- sint w)"
  have m: "0 < m" "m \<le> 2 ^ 63"
    using True sint64_bounds [of w] by (simp_all add: m_def le_nat_iff)
  have "(word_of_nat m :: 64 word) = word_of_int (- sint w)"
    using True by (simp add: m_def)
  then have neg: "- (word_of_nat m :: 64 word) = w" by simp
  have "Atoi (CHR ''-'' # dec_digits m) = - word_of_nat m"
    using m by (simp add: Atoi_def parse_dec_digits dec_digits_not_Nil)
  with True neg show ?thesis by (simp add: FormatInt_def m_def)
next
  case False
  define m where "m = nat (sint w)"
  have m: "m < 2 ^ 63"
    using False sint64_bounds [of w] by (simp add: m_def nat_less_iff)
  have wm: "(word_of_nat m :: 64 word) = w"
    using False by (simp add: m_def)
  obtain c cs where cs: "dec_digits m = c # cs"
    using dec_digits_not_Nil [of m] by (cases "dec_digits m") auto
  then have "c \<in> set (dec_digits m)" by simp
  then obtain d where "d < 10" "c = digit_char d" by (blast dest: dec_digits_all_digits)
  then have c: "c \<noteq> CHR ''-''" "c \<noteq> CHR ''+''" by (simp_all add: digit_char_props)
  have "parse_digits 0 (c # cs) = Some m" using parse_dec_digits [of m] cs by simp
  then have "Atoi (c # cs) = word_of_nat m"
    using c m by (simp add: Atoi_def del: parse_digits.simps)
  with False wm cs show ?thesis by (simp add: FormatInt_def m_def)
qed

subsection \<open>The codec: lines and fields\<close>

lemma Split_not_Nil: "Split str sep \<noteq> []"
  by (induction str) (auto split: list.splits)

lemma Split_no_sep: "sep \<notin> set a \<Longrightarrow> Split a sep = [a]"
  by (induction a) auto

lemma Split_append_sep: "sep \<notin> set a \<Longrightarrow> Split (a @ sep # rest) sep = a # Split rest sep"
  by (induction a) auto

lemma Split_lines:
  "\<forall>x \<in> set xs. nl \<notin> set (f x) \<Longrightarrow>
     Split (concat (map (\<lambda>x. f x @ [nl]) xs)) nl = map f xs @ [[]]"
  by (induction xs) (simp_all add: Split_append_sep)

lemma FormatInt_plain: "CHR '';'' \<notin> set (FormatInt w)" "CHR 0x0A \<notin> set (FormatInt w)"
  using FormatInt_chars [of _ w] by blast+

lemma Split_Account_ToString:
  assumes "plain (aPhone a)"
  shows "Split (Account_ToString a) CHR '';'' = [FormatInt (aID a), aPhone a, FormatInt (aBalance a)]"
proof -
  have "Split (FormatInt (aID a) @ CHR '';'' # aPhone a @ CHR '';'' # FormatInt (aBalance a)) CHR '';''
      = FormatInt (aID a) # Split (aPhone a @ CHR '';'' # FormatInt (aBalance a)) CHR '';''"
    by (rule Split_append_sep) (rule FormatInt_plain)
  also have "Split (aPhone a @ CHR '';'' # FormatInt (aBalance a)) CHR '';''
      = aPhone a # Split (FormatInt (aBalance a)) CHR '';''"
    using assms by (intro Split_append_sep) (simp add: plain_def)
  also have "Split (FormatInt (aBalance a)) CHR '';'' = [FormatInt (aBalance a)]"
    by (rule Split_no_sep) (rule FormatInt_plain)
  finally show ?thesis by (simp add: Account_ToString_def)
qed

lemma Split_Payment_ToString:
  assumes "plain (pID p)" "plain (pCategory p)" "plain (pStatus p)"
  shows "Split (Payment_ToString p) CHR '';'' =
    [pID p, FormatInt (pAccountID p), FormatInt (pAmount p), pCategory p, pStatus p]"
proof -
  have "Split (pID p @ CHR '';'' # FormatInt (pAccountID p) @ CHR '';'' # FormatInt (pAmount p) @
          CHR '';'' # pCategory p @ CHR '';'' # pStatus p) CHR '';''
      = pID p # Split (FormatInt (pAccountID p) @ CHR '';'' # FormatInt (pAmount p) @
          CHR '';'' # pCategory p @ CHR '';'' # pStatus p) CHR '';''"
    using assms by (intro Split_append_sep) (simp add: plain_def)
  also have "Split (FormatInt (pAccountID p) @ CHR '';'' # FormatInt (pAmount p) @
          CHR '';'' # pCategory p @ CHR '';'' # pStatus p) CHR '';''
      = FormatInt (pAccountID p) # Split (FormatInt (pAmount p) @
          CHR '';'' # pCategory p @ CHR '';'' # pStatus p) CHR '';''"
    by (rule Split_append_sep) (rule FormatInt_plain)
  also have "Split (FormatInt (pAmount p) @ CHR '';'' # pCategory p @ CHR '';'' # pStatus p) CHR '';''
      = FormatInt (pAmount p) # Split (pCategory p @ CHR '';'' # pStatus p) CHR '';''"
    by (rule Split_append_sep) (rule FormatInt_plain)
  also have "Split (pCategory p @ CHR '';'' # pStatus p) CHR '';''
      = pCategory p # Split (pStatus p) CHR '';''"
    using assms by (intro Split_append_sep) (simp add: plain_def)
  also have "Split (pStatus p) CHR '';'' = [pStatus p]"
    using assms by (intro Split_no_sep) (simp add: plain_def)
  finally show ?thesis by (simp add: Payment_ToString_def)
qed

lemma Split_Favorite_ToString:
  assumes "plain (fID f)" "plain (fName f)" "plain (fCategory f)"
  shows "Split (Favorite_ToString f) CHR '';'' =
    [fID f, FormatInt (fAccountID f), fName f, FormatInt (fAmount f), fCategory f]"
proof -
  have "Split (fID f @ CHR '';'' # FormatInt (fAccountID f) @ CHR '';'' # fName f @
          CHR '';'' # FormatInt (fAmount f) @ CHR '';'' # fCategory f) CHR '';''
      = fID f # Split (FormatInt (fAccountID f) @ CHR '';'' # fName f @
          CHR '';'' # FormatInt (fAmount f) @ CHR '';'' # fCategory f) CHR '';''"
    using assms by (intro Split_append_sep) (simp add: plain_def)
  also have "Split (FormatInt (fAccountID f) @ CHR '';'' # fName f @
          CHR '';'' # FormatInt (fAmount f) @ CHR '';'' # fCategory f) CHR '';''
      = FormatInt (fAccountID f) # Split (fName f @
          CHR '';'' # FormatInt (fAmount f) @ CHR '';'' # fCategory f) CHR '';''"
    by (rule Split_append_sep) (rule FormatInt_plain)
  also have "Split (fName f @ CHR '';'' # FormatInt (fAmount f) @ CHR '';'' # fCategory f) CHR '';''
      = fName f # Split (FormatInt (fAmount f) @ CHR '';'' # fCategory f) CHR '';''"
    using assms by (intro Split_append_sep) (simp add: plain_def)
  also have "Split (FormatInt (fAmount f) @ CHR '';'' # fCategory f) CHR '';''
      = FormatInt (fAmount f) # Split (fCategory f) CHR '';''"
    by (rule Split_append_sep) (rule FormatInt_plain)
  also have "Split (fCategory f) CHR '';'' = [fCategory f]"
    using assms by (intro Split_no_sep) (simp add: plain_def)
  finally show ?thesis by (simp add: Favorite_ToString_def)
qed

lemma Account_ToString_line: "plain (aPhone a) \<Longrightarrow> CHR 0x0A \<notin> set (Account_ToString a)"
  by (simp add: Account_ToString_def plain_def FormatInt_plain)

lemma Payment_ToString_line:
  "plain (pID p) \<Longrightarrow> plain (pCategory p) \<Longrightarrow> plain (pStatus p) \<Longrightarrow>
     CHR 0x0A \<notin> set (Payment_ToString p)"
  by (simp add: Payment_ToString_def plain_def FormatInt_plain)

lemma Favorite_ToString_line:
  "plain (fID f) \<Longrightarrow> plain (fName f) \<Longrightarrow> plain (fCategory f) \<Longrightarrow>
     CHR 0x0A \<notin> set (Favorite_ToString f)"
  by (simp add: Favorite_ToString_def plain_def FormatInt_plain)

subsection \<open>Importing what Export wrote\<close>

lemma importAccounts_fresh:
  assumes "distinct (map aID accs)" "\<forall>a \<in> set accs. plain (aPhone a)"
    and "accounts s0 = Some pre" "\<forall>a \<in> set accs. \<forall>b \<in> set pre. aID b \<noteq> aID a"
  shows "importAccounts (map Account_ToString accs @ [[]]) s0 =
    (s0\<lparr>accounts := Some (pre @ accs),
        nextAccountID := (if accs = [] then nextAccountID s0 else aID (last accs))\<rparr>, Ok ())"
  using assms
proof (induction accs arbitrary: s0 pre)
  case Nil
  then show ?case by simp
next
  case (Cons a accs)
  define s1 where "s1 = s0\<lparr>accounts := Some (pre @ [a]), nextAccountID := aID a\<rparr>"
  have fields: "Split (Account_ToString a) CHR '';'' =
      [FormatInt (aID a), aPhone a, FormatInt (aBalance a)]"
    using Cons.prems(2) by (intro Split_Account_ToString) simp
  have absent: "indexAccountByID s0 (aID a) = None"
    using Cons.prems(3,4) by (auto simp: indexAccountByID_def first_from_None)
  have same: "\<lparr>aID = aID a, aPhone = aPhone a, aBalance = aBalance a\<rparr> = a" by simp
  have step: "importAccounts (map Account_ToString (a # accs) @ [[]]) s0 =
      importAccounts (map Account_ToString accs @ [[]]) s1"
    using fields absent Cons.prems(3)
    by (simp add: Let_def Atoi_FormatInt append_slice_def same s1_def)
  have "importAccounts (map Account_ToString accs @ [[]]) s1 =
    (s1\<lparr>accounts := Some ((pre @ [a]) @ accs),
        nextAccountID := (if accs = [] then nextAccountID s1 else aID (last accs))\<rparr>, Ok ())"
  proof (rule Cons.IH)
    show "distinct (map aID accs)" using Cons.prems(1) by simp
    show "\<forall>a \<in> set accs. plain (aPhone a)" using Cons.prems(2) by simp
    show "accounts s1 = Some (pre @ [a])" by (simp add: s1_def)
    show "\<forall>b \<in> set accs. \<forall>c \<in> set (pre @ [a]). aID c \<noteq> aID b"
      using Cons.prems(1,4) by auto
  qed
  with step show ?case by (simp add: s1_def)
qed

lemma importPayments_fresh:
  assumes "distinct (map pID pays)"
    and "\<forall>p \<in> set pays. plain (pID p) \<and> plain (pCategory p) \<and> plain (pStatus p)"
    and "payments s0 = Some pre" "\<forall>p \<in> set pays. \<forall>q \<in> set pre. pID q \<noteq> pID p"
  shows "importPayments (map Payment_ToString pays @ [[]]) s0 =
    (s0\<lparr>payments := Some (pre @ pays)\<rparr>, Ok ())"
  using assms
proof (induction pays arbitrary: s0 pre)
  case Nil
  then show ?case by simp
next
  case (Cons p pays)
  define s1 where "s1 = s0\<lparr>payments := Some (pre @ [p])\<rparr>"
  have fields: "Split (Payment_ToString p) CHR '';'' =
      [pID p, FormatInt (pAccountID p), FormatInt (pAmount p), pCategory p, pStatus p]"
    using Cons.prems(2) by (intro Split_Payment_ToString) simp_all
  have absent: "indexPaymentByID s0 (pID p) = None"
    using Cons.prems(3,4) by (auto simp: indexPaymentByID_def first_from_None)
  have same: "\<lparr>pID = pID p, pAccountID = pAccountID p, pAmount = pAmount p,
      pCategory = pCategory p, pStatus = pStatus p\<rparr> = p" by simp
  have step: "importPayments (map Payment_ToString (p # pays) @ [[]]) s0 =
      importPayments (map Payment_ToString pays @ [[]]) s1"
    using fields absent Cons.prems(3)
    by (simp add: Let_def Atoi_FormatInt append_slice_def same s1_def)
  have "importPayments (map Payment_ToString pays @ [[]]) s1 =
    (s1\<lparr>payments := Some ((pre @ [p]) @ pays)\<rparr>, Ok ())"
  proof (rule Cons.IH)
    show "distinct (map pID pays)" using Cons.prems(1) by simp
    show "\<forall>p \<in> set pays. plain (pID p) \<and> plain (pCategory p) \<and> plain (pStatus p)"
      using Cons.prems(2) by simp
    show "payments s1 = Some (pre @ [p])" by (simp add: s1_def)
    show "\<forall>q \<in> set pays. \<forall>r \<in> set (pre @ [p]). pID r \<noteq> pID q"
      using Cons.prems(1,4) by auto
  qed
  with step show ?case by (simp add: s1_def)
qed

lemma importFavorites_fresh:
  assumes "freshFor uuids n favs"
    and "\<forall>f \<in> set favs. plain (fID f) \<and> plain (fName f) \<and> plain (fCategory f)"
    and "favorites s0 = Some pre" "\<forall>f \<in> set favs. \<forall>h \<in> set pre. fID h \<noteq> fID f"
  shows "importFavorites uuids n (map Favorite_ToString favs @ [[]]) s0 =
    (s0\<lparr>favorites := Some (pre @ reidentify uuids n favs)\<rparr>, Ok ())"
  using assms
proof (induction favs arbitrary: s0 pre n)
  case Nil
  then show ?case by simp
next
  case (Cons f favs)
  define g where "g = f\<lparr>fID := uuids n\<rparr>"
  define s1 where "s1 = s0\<lparr>favorites := Some (pre @ [g])\<rparr>"
  have fields: "Split (Favorite_ToString f) CHR '';'' =
      [fID f, FormatInt (fAccountID f), fName f, FormatInt (fAmount f), fCategory f]"
    using Cons.prems(2) by (intro Split_Favorite_ToString) simp_all
  have absent: "indexFavoriteByID s0 (fID f) = None"
    using Cons.prems(3,4) by (auto simp: indexFavoriteByID_def first_from_None)
  have same: "\<lparr>fID = uuids n, fAccountID = fAccountID f, fName = fName f,
      fAmount = fAmount f, fCategory = fCategory f\<rparr> = g" by (simp add: g_def)
  have step: "importFavorites uuids n (map Favorite_ToString (f # favs) @ [[]]) s0 =
      importFavorites uuids (Suc n) (map Favorite_ToString favs @ [[]]) s1"
    using fields absent Cons.prems(3)
    by (simp add: Let_def Atoi_FormatInt append_slice_def same s1_def)
  have "importFavorites uuids (Suc n) (map Favorite_ToString favs @ [[]]) s1 =
    (s1\<lparr>favorites := Some ((pre @ [g]) @ reidentify uuids (Suc n) favs)\<rparr>, Ok ())"
  proof (rule Cons.IH)
    show "freshFor uuids (Suc n) favs" using Cons.prems(1) by simp
    show "\<forall>f \<in> set favs. plain (fID f) \<and> plain (fName f) \<and> plain (fCategory f)"
      using Cons.prems(2) by simp
    show "favorites s1 = Some (pre @ [g])" by (simp add: s1_def)
    show "\<forall>h \<in> set favs. \<forall>k \<in> set (pre @ [g]). fID k \<noteq> fID h"
      using Cons.prems(1,4) by (auto simp: g_def)
  qed
  with step show ?case by (simp add: s1_def g_def)
qed

lemma dumpPath_inject: "dumpPath dir a = dumpPath dir b \<longleftrightarrow> a = b"
  by (simp add: dumpPath_def)

lemma readDump_Export:
  assumes "fs (dumpPath dir ''accounts'') = None" "fs (dumpPath dir ''payments'') = None"
    "fs (dumpPath dir ''favorites'') = None"
  shows "readDump (fst (Export s dir fs)) dir ''accounts'' =
           concat (map (\<lambda>account. Account_ToString account @ [CHR 0x0A]) (elems (accounts s)))"
    and "readDump (fst (Export s dir fs)) dir ''payments'' =
           concat (map (\<lambda>payment. Payment_ToString payment @ [CHR 0x0A]) (elems (payments s)))"
    and "readDump (fst (Export s dir fs)) dir ''favorites'' =
           concat (map (\<lambda>favorite. Favorite_ToString favorite @ [CHR 0x0A]) (elems (favorites s)))"
  using assms by (simp_all add: Export_def readDump_def Let_def dumpPath_inject)

lemma reidentify_length: "length (reidentify uuids n favs) = length favs"
  by (induction favs arbitrary: n) auto

lemma reidentify_nth:
  "i < length favs \<Longrightarrow> reidentify uuids n favs ! i = (favs ! i)\<lparr>fID := uuids (n + i)\<rparr>"
  by (induction favs arbitrary: n i) (auto simp: nth_Cons split: nat.splits)

text \<open>
  Claim C6, amended. Let the account identifiers of a store be pairwise distinct, its
  payment identifiers pairwise distinct, and its string fields (phones, payment
  identifiers, categories, statuses, favorite identifiers and names) free of \<open>;\<close>
  and of the newline. Then \<open>Export\<close> to a directory without dump files followed by
  \<open>Import\<close> into a fresh store whose slices are empty but not nil returns no error and
  reproduces the accounts and the payments exactly, and the favorites with the same
  account, name, amount and category under the identifiers generated during the
  import (\<open>reidentify\<close>), provided no generated identifier is the exported identifier of
  a favorite on a later line.
\<close>

theorem export_import_roundtrip:
  assumes empty_dir: "fs (dumpPath dir ''accounts'') = None" "fs (dumpPath dir ''payments'') = None"
      "fs (dumpPath dir ''favorites'') = None"
    and acc: "distinct (map aID (elems (accounts s)))"
      "\<forall>a \<in> set (elems (accounts s)). plain (aPhone a)"
    and pay: "distinct (map pID (elems (payments s)))"
      "\<forall>p \<in> set (elems (payments s)). plain (pID p) \<and> plain (pCategory p) \<and> plain (pStatus p)"
    and fav: "freshFor uuids 0 (elems (favorites s))"
      "\<forall>f \<in> set (elems (favorites s)). plain (fID f) \<and> plain (fName f) \<and> plain (fCategory f)"
  shows "\<exists>t. Import emptyService dir (fst (Export s dir fs)) uuids = (t, Ok ())
           \<and> accounts t = Some (elems (accounts s))
           \<and> payments t = Some (elems (payments s))
           \<and> favorites t = Some (reidentify uuids 0 (elems (favorites s)))"
proof -
  define fs' where "fs' = fst (Export s dir fs)"
  define accs where "accs = elems (accounts s)"
  define pays where "pays = elems (payments s)"
  define favs where "favs = elems (favorites s)"
  define s1 where "s1 = emptyService\<lparr>accounts := Some ([] @ accs),
      nextAccountID := (if accs = [] then nextAccountID emptyService else aID (last accs))\<rparr>"
  define s2 where "s2 = s1\<lparr>payments := Some ([] @ pays)\<rparr>"
  define s3 where "s3 = s2\<lparr>favorites := Some ([] @ reidentify uuids 0 favs)\<rparr>"
  have lines_a: "Split (readDump fs' dir ''accounts'') (CHR 0x0A) = map Account_ToString accs @ [[]]"
    unfolding fs'_def readDump_Export(1) [OF empty_dir] accs_def [symmetric]
    using acc(2) by (intro Split_lines) (simp add: Account_ToString_line accs_def)
  have lines_p: "Split (readDump fs' dir ''payments'') (CHR 0x0A) = map Payment_ToString pays @ [[]]"
    unfolding fs'_def readDump_Export(2) [OF empty_dir] pays_def [symmetric]
    using pay(2) by (intro Split_lines) (simp add: Payment_ToString_line pays_def)
  have lines_f: "Split (readDump fs' dir ''favorites'') (CHR 0x0A) = map Favorite_ToString favs @ [[]]"
    unfolding fs'_def readDump_Export(3) [OF empty_dir] favs_def [symmetric]
    using fav(2) by (intro Split_lines) (simp add: Favorite_ToString_line favs_def)
  have a: "importAccountsBlock emptyService dir fs' = (s1, Ok ())"
  proof -
    have "importAccounts (map Account_ToString accs @ [[]]) emptyService = (s1, Ok ())"
      unfolding s1_def using acc
      by (intro importAccounts_fresh) (simp_all add: accs_def emptyService_def)
    then show ?thesis by (simp add: importAccountsBlock_def lines_a emptyService_def)
  qed
  have p: "importPaymentsBlock s1 dir fs' = (s2, Ok ())"
  proof -
    have "importPayments (map Payment_ToString pays @ [[]]) s1 = (s2, Ok ())"
      unfolding s2_def using pay
      by (intro importPayments_fresh) (simp_all add: pays_def s1_def emptyService_def)
    then show ?thesis by (simp add: importPaymentsBlock_def lines_p s1_def emptyService_def)
  qed
  have f: "importFavoritesBlock s2 dir fs' uuids = (s3, Ok ())"
  proof -
    have "importFavorites uuids 0 (map Favorite_ToString favs @ [[]]) s2 = (s3, Ok ())"
      unfolding s3_def using fav
      by (intro importFavorites_fresh) (simp_all add: favs_def s2_def s1_def emptyService_def)
    then show ?thesis
      by (simp add: importFavoritesBlock_def lines_f s2_def s1_def emptyService_def)
  qed
  have "Import emptyService dir fs' uuids = (s3, Ok ())"
    by (simp add: Import_def andThen_def a p f)
  moreover have "accounts s3 = Some accs" "payments s3 = Some pays"
    "favorites s3 = Some (reidentify uuids 0 favs)"
    by (simp_all add: s3_def s2_def s1_def)
  ultimately show ?thesis
    unfolding fs'_def accs_def pays_def favs_def by blast
qed

lemma testExportStore_value:
  "testExportStore =
     \<lparr>nextAccountID = 3,
      accounts = Some [\<lparr>aID = 1, aPhone = ''+992928885522'', aBalance = 0\<rparr>,
                       \<lparr>aID = 2, aPhone = ''+992928000000'', aBalance = 0\<rparr>,
                       \<lparr>aID = 3, aPhone = ''+992928811111'', aBalance = 495\<rparr>],
      payments = Some [\<lparr>pID = ''p1'', pAccountID = 3, pAmount = 5, pCategory = ''salom'',
                        pStatus = ''INPROGRESS''\<rparr>],
      favorites = Some [\<lparr>fID = ''f1'', fAccountID = 3, fName = ''sidal'', fAmount = 5,
                         fCategory = ''salom''\<rparr>]\<rparr>"
  by (simp add: testExportStore_def emptyService_def eval_defs)

theorem export_import_roundtrip_witness:
  "\<exists>t. Import emptyService ''./data'' testExportDump (\<lambda>n. ''g1'') = (t, Ok ())
     \<and> accounts t = Some [\<lparr>aID = 1, aPhone = ''+992928885522'', aBalance = 0\<rparr>,
                          \<lparr>aID = 2, aPhone = ''+992928000000'', aBalance = 0\<rparr>,
                          \<lparr>aID = 3, aPhone = ''+992928811111'', aBalance = 495\<rparr>]
     \<and> payments t = Some [\<lparr>pID = ''p1'', pAccountID = 3, pAmount = 5, pCategory = ''salom'',
                           pStatus = ''INPROGRESS''\<rparr>]
     \<and> favorites t = Some [\<lparr>fID = ''g1'', fAccountID = 3, fName = ''sidal'', fAmount = 5,
                            fCategory = ''salom''\<rparr>]
     \<and> favorites testExportStore = Some [\<lparr>fID = ''f1'', fAccountID = 3, fName = ''sidal'',
                            fAmount = 5, fCategory = ''salom''\<rparr>]"
proof -
  have e: "(Map.empty :: filesystem) (dumpPath ''./data'' ''accounts'') = None"
    "(Map.empty :: filesystem) (dumpPath ''./data'' ''payments'') = None"
    "(Map.empty :: filesystem) (dumpPath ''./data'' ''favorites'') = None"
    by simp_all
  have a: "distinct (map aID (elems (accounts testExportStore)))"
    "\<forall>a \<in> set (elems (accounts testExportStore)). plain (aPhone a)"
    by (simp_all add: testExportStore_value plain_def)
  have p: "distinct (map pID (elems (payments testExportStore)))"
    "\<forall>p \<in> set (elems (payments testExportStore)).
        plain (pID p) \<and> plain (pCategory p) \<and> plain (pStatus p)"
    by (simp_all add: testExportStore_value plain_def)
  have f: "freshFor (\<lambda>n. ''g1'') 0 (elems (favorites testExportStore))"
    "\<forall>f \<in> set (elems (favorites testExportStore)).
        plain (fID f) \<and> plain (fName f) \<and> plain (fCategory f)"
    by (simp_all add: testExportStore_value plain_def)
  from export_import_roundtrip [OF e a p f] obtain t where
    "Import emptyService ''./data'' (fst (Export testExportStore ''./data'' Map.empty)) (\<lambda>n. ''g1'')
       = (t, Ok ())"
    "accounts t = Some (elems (accounts testExportStore))"
    "payments t = Some (elems (payments testExportStore))"
    "favorites t = Some (reidentify (\<lambda>n. ''g1'') 0 (elems (favorites testExportStore)))"
    by blast
  then show ?thesis
    by (intro exI [of _ t]) (simp add: testExportDump_def testExportStore_value)
qed

text \<open>
  The claim as stated, for every store, fails: the format has no escaping, so a
  category holding \<open>;\<close> comes back split over the category and the status. (And into
  the zero value of the service, whose slices are nil, nothing is imported at all.)
\<close>

theorem export_import_roundtrip_counterexample:
  "payments separatorStore =
     Some [\<lparr>pID = ''p1'', pAccountID = 1, pAmount = 5, pCategory = ''a;b'',
            pStatus = ''INPROGRESS''\<rparr>]
   \<and> fst (Export separatorStore ''data'' Map.empty) ''data/payments.dump'' =
       Some (''p1;1;5;a;b;INPROGRESS'' @ [CHR 0x0A])
   \<and> payments (fst (Import emptyService ''data'' (fst (Export separatorStore ''data'' Map.empty))
                  (\<lambda>n. ''g1''))) =
       Some [\<lparr>pID = ''p1'', pAccountID = 1, pAmount = 5, pCategory = ''a'', pStatus = ''b''\<rparr>]"
  by (simp add: separatorStore_def emptyService_def eval_defs)

text \<open>
  The condition on the identifiers is needed as well: in the store that
  \<open>counterRegressCalls\<close> leaves, two accounts carry the identifier 3, and \<open>Import\<close> merges
  their two lines into one account.
\<close>

lemma roundtrip_merges_duplicate_ids:
  "map aID (elems (accounts (run emptyService counterRegressCalls))) = [1, 3, 2, 3]
   \<and> accounts (fst (Import emptyService ''out''
                  (fst (Export (run emptyService counterRegressCalls) ''out'' Map.empty))
                  (\<lambda>n. ''g1''))) =
       Some [\<lparr>aID = 1, aPhone = ''+992000000001'', aBalance = 0\<rparr>,
             \<lparr>aID = 3, aPhone = ''+992000000004'', aBalance = 0\<rparr>,
             \<lparr>aID = 2, aPhone = ''+992000000002'', aBalance = 0\<rparr>]"
  by (simp add: counterRegressCalls_def outOfOrderDump_def emptyService_def eval_defs)

end
